theory Spec2Isabelle
  imports Complex_Main "HOL-Library.Sublist"
begin

section \<open>The notebook \<open>book/geospatial/rioxarray.ipynb\<close> as a program over an external library\<close>

text \<open>
  The repository is one Jupyter notebook. Its code cells are straight-line Python: every
  statement is an assignment of a literal, an import, or a call into \<open>rioxarray\<close>,
  \<open>xarray\<close>, \<open>geopandas\<close>, \<open>matplotlib\<close> or a Python builtin. None of these
  libraries is part of the repository, so the model takes all of them as one parameter, the
  \<^emph>\<open>library\<close>: a function that answers a call, in a state of the outside world, with an
  exception or a value and the next state of the world. The notebook itself is the
  sequence of calls it makes and the way it passes results from one call to the next.
\<close>

subsection \<open>Python values\<close>

text \<open>
  The values the notebook writes down are strings, integers, decimal literals, booleans,
  lists, tuples and slices. Everything the libraries return (datasets, data frames, CRS
  objects, figures, axes) is opaque: \<open>VObj\<close> of a handle chosen by the library. A decimal
  literal such as \<open>-115.391\<close> is kept as the rational number it denotes; the notebook only
  hands these numbers to the library and never computes with them.
\<close>

datatype 'o val =
    VNone
  | VBool bool
  | VInt int
  | VFloat rat
  | VStr string
  | VList "'o val list"
  | VTuple "'o val list"
  | VSlice "'o val" "'o val"
  | VObj 'o

text \<open>A Python exception, by the name of its class.\<close>

datatype exn = Exn string

subsection \<open>External calls\<close>

text \<open>
  One constructor for every external function, method or property the notebook uses.
  An accessor chain is one call with the receiver as first argument:
  \<open>d.rio.reproject(t)\<close> is \<open>Rio_reproject\<close> on \<open>[d, t]\<close>, \<open>d.plot.imshow(..)\<close> is
  \<open>Plot_imshow\<close> on \<open>[d]\<close>, \<open>b.boundary.plot(..)\<close> is \<open>Boundary\<close> followed by
  \<open>Geo_plot\<close>. \<open>Display\<close> is the display hook of the notebook front end: the
  value of a cell's final expression statement is handed to it (it shows nothing for
  \<open>None\<close>).
\<close>

datatype fn =
    Import
  | Xr_set_options
  | Open_rasterio
  | Display
  | Print
  | Dims
  | Coords
  | Attrs
  | Rio_crs
  | Rio_transform
  | Rio_reproject
  | Rio_clip_box
  | Gpd_read_file
  | Geometry
  | Crs
  | Rio_clip
  | Shape
  | Sel
  | Plt_figure
  | Plot_imshow
  | Plt_title
  | Plt_xlabel
  | Plt_ylabel
  | Plt_show
  | Plt_subplots
  | Boundary
  | Geo_plot
  | Rio_to_raster

text \<open>An event of the run: the call made, with its positional and keyword arguments, and
  the library's answer.\<close>

record 'o event =
  ev_fn :: fn
  ev_args :: "'o val list"
  ev_kwargs :: "(string \<times> 'o val) list"
  ev_resp :: "exn + 'o val"

type_synonym ('o, 'w) library =
  "fn \<Rightarrow> 'o val list \<Rightarrow> (string \<times> 'o val) list \<Rightarrow> 'w \<Rightarrow> (exn + 'o val) \<times> 'w"

subsection \<open>Sequential execution with exceptions\<close>

text \<open>
  A piece of notebook code runs against a library, from a state of the world and the log
  of the events so far. It ends with an exception (\<open>Inl\<close>) or a result (\<open>Inr\<close>), the
  new world and the extended log. Python has no other control flow here: the notebook
  contains no \<open>try\<close>, no \<open>if\<close>, no loop and no function definition.
\<close>

type_synonym ('o, 'w, 'a) nb =
  "('o, 'w) library \<Rightarrow> 'w \<times> 'o event list \<Rightarrow> (exn + 'a) \<times> 'w \<times> 'o event list"

definition ret :: "'a \<Rightarrow> ('o, 'w, 'a) nb" where
  "ret x = (\<lambda>lib s. (Inr x, s))"

definition raise :: "exn \<Rightarrow> ('o, 'w, 'a) nb" where
  "raise e = (\<lambda>lib s. (Inl e, s))"

definition bnd :: "('o, 'w, 'a) nb \<Rightarrow> ('a \<Rightarrow> ('o, 'w, 'b) nb) \<Rightarrow> ('o, 'w, 'b) nb" where
  "bnd m k = (\<lambda>lib s.
     case m lib s of
       (Inl e, s') \<Rightarrow> (Inl e, s')
     | (Inr x, s') \<Rightarrow> k x lib s')"

definition call :: "fn \<Rightarrow> 'o val list \<Rightarrow> (string \<times> 'o val) list \<Rightarrow> ('o, 'w, 'o val) nb" where
  "call f args kwargs = (\<lambda>lib (w, tr).
     case lib f args kwargs w of
       (r, w') \<Rightarrow>
         (r, w', tr @ [\<lparr>ev_fn = f, ev_args = args, ev_kwargs = kwargs, ev_resp = r\<rparr>]))"

text \<open>
  Tuple unpacking \<open>a, b = v\<close>. A sequence of two elements unpacks; a sequence of another
  length raises \<open>ValueError\<close>; a value that is no sequence raises \<open>TypeError\<close>. Sequences
  returned by a library are \<open>VTuple\<close> or \<open>VList\<close> values in this model.
\<close>

fun unpack2 :: "'o val \<Rightarrow> exn + ('o val \<times> 'o val)" where
  "unpack2 (VTuple [a, b]) = Inr (a, b)"
| "unpack2 (VList [a, b]) = Inr (a, b)"
| "unpack2 (VStr [a, b]) = Inr (VStr [a], VStr [b])"
| "unpack2 (VTuple vs) = Inl (Exn ''ValueError'')"
| "unpack2 (VList vs) = Inl (Exn ''ValueError'')"
| "unpack2 (VStr cs) = Inl (Exn ''ValueError'')"
| "unpack2 v = Inl (Exn ''TypeError'')"

definition unpack :: "'o val \<Rightarrow> ('o, 'w, 'o val \<times> 'o val) nb" where
  "unpack v = (case unpack2 v of Inl e \<Rightarrow> raise e | Inr p \<Rightarrow> ret p)"

subsection \<open>The code cells\<close>

text \<open>
  Cell ids are those of the notebook file. Cell 1 holds only a comment
  (\<open># %pip install rioxarray rasterio\<close>) and the exercise cells 35, 37, 39, 41 and 43 are
  empty: they run nothing. A Python variable is a bound variable of the model; a cell
  takes the variables it reads as arguments and returns the ones it assigns.
\<close>

text \<open>Cell 3: the imports and \<open>xr.set_options(keep_attrs=True, display_expand_data=False)\<close>.\<close>

definition cell3 :: "('o, 'w, unit) nb" where
  "cell3 =
     bnd (call Import [VStr ''rioxarray''] []) (\<lambda>_.
     bnd (call Import [VStr ''xarray''] []) (\<lambda>_.
     bnd (call Import [VStr ''matplotlib.pyplot''] []) (\<lambda>_.
     bnd (call Xr_set_options []
            [(''keep_attrs'', VBool True), (''display_expand_data'', VBool False)]) (\<lambda>r.
     bnd (call Display [r] []) (\<lambda>_.
     ret ())))))"

text \<open>Cell 5: \<open>url = "..."; data = rioxarray.open_rasterio(url); data\<close>.\<close>

definition raster_url :: string where
  "raster_url =
     ''https://github.com/opengeos/datasets/releases/download/raster/LC09_039035_20240708_90m.tif''"

definition cell5 :: "('o, 'w, 'o val \<times> 'o val) nb" where
  "cell5 =
     (let url = VStr raster_url in
      bnd (call Open_rasterio [url] []) (\<lambda>data.
      bnd (call Display [data] []) (\<lambda>_.
      ret (url, data))))"

text \<open>Cells 7, 8, 9: \<open>print(data.dims)\<close>, \<open>print(data.coords)\<close>, \<open>print(data.attrs)\<close>.\<close>

definition cell7 :: "'o val \<Rightarrow> ('o, 'w, unit) nb" where
  "cell7 data =
     bnd (call Dims [data] []) (\<lambda>d.
     bnd (call Print [d] []) (\<lambda>r.
     bnd (call Display [r] []) (\<lambda>_.
     ret ())))"

definition cell8 :: "'o val \<Rightarrow> ('o, 'w, unit) nb" where
  "cell8 data =
     bnd (call Coords [data] []) (\<lambda>c.
     bnd (call Print [c] []) (\<lambda>r.
     bnd (call Display [r] []) (\<lambda>_.
     ret ())))"

definition cell9 :: "'o val \<Rightarrow> ('o, 'w, unit) nb" where
  "cell9 data =
     bnd (call Attrs [data] []) (\<lambda>a.
     bnd (call Print [a] []) (\<lambda>r.
     bnd (call Display [r] []) (\<lambda>_.
     ret ())))"

text \<open>Cells 11, 12: \<open>print(data.rio.crs)\<close>, \<open>print(data.rio.transform())\<close>.\<close>

definition cell11 :: "'o val \<Rightarrow> ('o, 'w, unit) nb" where
  "cell11 data =
     bnd (call Rio_crs [data] []) (\<lambda>c.
     bnd (call Print [c] []) (\<lambda>r.
     bnd (call Display [r] []) (\<lambda>_.
     ret ())))"

definition cell12 :: "'o val \<Rightarrow> ('o, 'w, unit) nb" where
  "cell12 data =
     bnd (call Rio_transform [data] []) (\<lambda>t.
     bnd (call Print [t] []) (\<lambda>r.
     bnd (call Display [r] []) (\<lambda>_.
     ret ())))"

text \<open>Cell 14:
  \<open>data_reprojected = data.rio.reproject("EPSG:4326"); print(data_reprojected.rio.crs)\<close>.\<close>

definition cell14 :: "'o val \<Rightarrow> ('o, 'w, 'o val) nb" where
  "cell14 data =
     bnd (call Rio_reproject [data, VStr ''EPSG:4326''] []) (\<lambda>data_reprojected.
     bnd (call Rio_crs [data_reprojected] []) (\<lambda>c.
     bnd (call Print [c] []) (\<lambda>r.
     bnd (call Display [r] []) (\<lambda>_.
     ret data_reprojected))))"

text \<open>Cell 16: \<open>bbox = [-115.391, 35.982, -114.988, 36.425]\<close> and
  \<open>clipped_data = data_reprojected.rio.clip_box(*bbox)\<close>; the star spreads the four
  elements of the list into four positional arguments.\<close>

definition bbox :: "'o val list" where
  "bbox = [VFloat (- 115.391), VFloat 35.982, VFloat (- 114.988), VFloat 36.425]"

definition cell16 :: "'o val \<Rightarrow> ('o, 'w, 'o val \<times> 'o val) nb" where
  "cell16 data_reprojected =
     bnd (call Rio_clip_box (data_reprojected # bbox) []) (\<lambda>clipped_data.
     ret (VList bbox, clipped_data))"

text \<open>Cell 17: \<open>clipped_data.shape\<close>.\<close>

definition cell17 :: "'o val \<Rightarrow> ('o, 'w, unit) nb" where
  "cell17 clipped_data =
     bnd (call Shape [clipped_data] []) (\<lambda>s.
     bnd (call Display [s] []) (\<lambda>_.
     ret ()))"

text \<open>Cell 19: \<open>import geopandas as gpd\<close>, \<open>bounds = gpd.read_file(geojson_path)\<close>,
  \<open>clipped_data2 = data.rio.clip(bounds.geometry, bounds.crs)\<close>. Python evaluates the
  arguments from left to right before the call.\<close>

definition geojson_url :: string where
  "geojson_url =
     ''https://github.com/opengeos/datasets/releases/download/places/las_vegas_bounds_utm.geojson''"

definition cell19 :: "'o val \<Rightarrow> ('o, 'w, 'o val \<times> 'o val \<times> 'o val) nb" where
  "cell19 data =
     bnd (call Import [VStr ''geopandas''] []) (\<lambda>_.
     (let geojson_path = VStr geojson_url in
      bnd (call Gpd_read_file [geojson_path] []) (\<lambda>bounds.
      bnd (call Geometry [bounds] []) (\<lambda>g.
      bnd (call Crs [bounds] []) (\<lambda>c.
      bnd (call Rio_clip [data, g, c] []) (\<lambda>clipped_data2.
      ret (geojson_path, bounds, clipped_data2)))))))"

text \<open>Cell 20: \<open>clipped_data2.shape\<close>.\<close>

definition cell20 :: "'o val \<Rightarrow> ('o, 'w, unit) nb" where
  "cell20 clipped_data2 =
     bnd (call Shape [clipped_data2] []) (\<lambda>s.
     bnd (call Display [s] []) (\<lambda>_.
     ret ()))"

text \<open>Cell 22:
  \<open>resampled_data = data.rio.reproject(data.rio.crs, resolution=(1000, 1000))\<close>.\<close>

definition cell22 :: "'o val \<Rightarrow> ('o, 'w, 'o val) nb" where
  "cell22 data =
     bnd (call Rio_crs [data] []) (\<lambda>c.
     bnd (call Rio_reproject [data, c]
            [(''resolution'', VTuple [VInt 1000, VInt 1000])]) (\<lambda>resampled_data.
     ret resampled_data))"

text \<open>Cell 23: \<open>resampled_data.shape\<close>.\<close>

definition cell23 :: "'o val \<Rightarrow> ('o, 'w, unit) nb" where
  "cell23 resampled_data =
     bnd (call Shape [resampled_data] []) (\<lambda>s.
     bnd (call Display [s] []) (\<lambda>_.
     ret ()))"

text \<open>Cell 25: \<open>min_x, max_x = -115.391, -114.988\<close>, \<open>min_y, max_y = 35.982, 36.425\<close>,
  \<open>subset = data_reprojected.sel(x=slice(min_x, max_x), y=slice(max_y, min_y))\<close>,
  \<open>subset.shape\<close>.\<close>

definition cell25 ::
  "'o val \<Rightarrow> ('o, 'w, 'o val \<times> 'o val \<times> 'o val \<times> 'o val \<times> 'o val) nb" where
  "cell25 data_reprojected =
     (let min_x = VFloat (- 115.391); max_x = VFloat (- 114.988);
          min_y = VFloat 35.982; max_y = VFloat 36.425 in
      bnd (call Sel [data_reprojected]
             [(''x'', VSlice min_x max_x), (''y'', VSlice max_y min_y)]) (\<lambda>subset.
      bnd (call Shape [subset] []) (\<lambda>s.
      bnd (call Display [s] []) (\<lambda>_.
      ret (min_x, max_x, min_y, max_y, subset)))))"

text \<open>Cells 27 and 29: a figure, \<open>d.sel(band=[4, 3, 2]).plot.imshow(vmin=0, vmax=0.3)\<close>,
  title, axis labels and \<open>plt.show()\<close>; cell 27 for \<open>data_reprojected\<close>, cell 29 for
  \<open>clipped_data\<close>.\<close>

definition plot_rgb :: "'o val \<Rightarrow> ('o, 'w, unit) nb" where
  "plot_rgb d =
     bnd (call Plt_figure [] [(''figsize'', VTuple [VInt 8, VInt 8])]) (\<lambda>_.
     bnd (call Sel [d] [(''band'', VList [VInt 4, VInt 3, VInt 2])]) (\<lambda>b.
     bnd (call Plot_imshow [b] [(''vmin'', VInt 0), (''vmax'', VFloat 0.3)]) (\<lambda>_.
     bnd (call Plt_title [VStr ''Landsat Image covering Las Vegas''] []) (\<lambda>_.
     bnd (call Plt_xlabel [VStr ''Longitude''] []) (\<lambda>_.
     bnd (call Plt_ylabel [VStr ''Latitude''] []) (\<lambda>_.
     bnd (call Plt_show [] []) (\<lambda>r.
     bnd (call Display [r] []) (\<lambda>_.
     ret ()))))))))"

definition cell27 :: "'o val \<Rightarrow> ('o, 'w, unit) nb" where
  "cell27 data_reprojected = plot_rgb data_reprojected"

definition cell29 :: "'o val \<Rightarrow> ('o, 'w, unit) nb" where
  "cell29 clipped_data = plot_rgb clipped_data"

text \<open>Cell 31: \<open>fig, ax = plt.subplots(figsize=(8, 8))\<close>,
  \<open>data.sel(band=4).plot.imshow(ax=ax, vmin=0, vmax=0.4, cmap="gray")\<close>,
  \<open>bounds.boundary.plot(ax=ax, color="red")\<close>, title and \<open>plt.show()\<close>.\<close>

definition cell31 :: "'o val \<Rightarrow> 'o val \<Rightarrow> ('o, 'w, 'o val \<times> 'o val) nb" where
  "cell31 data bounds =
     bnd (call Plt_subplots [] [(''figsize'', VTuple [VInt 8, VInt 8])]) (\<lambda>fa.
     bnd (unpack fa) (\<lambda>(fig, ax).
     bnd (call Sel [data] [(''band'', VInt 4)]) (\<lambda>b.
     bnd (call Plot_imshow [b]
            [(''ax'', ax), (''vmin'', VInt 0), (''vmax'', VFloat 0.4),
             (''cmap'', VStr ''gray'')]) (\<lambda>_.
     bnd (call Boundary [bounds] []) (\<lambda>bd.
     bnd (call Geo_plot [bd] [(''ax'', ax), (''color'', VStr ''red'')]) (\<lambda>_.
     bnd (call Plt_title [VStr ''Raster with Vector Overlay''] []) (\<lambda>_.
     bnd (call Plt_show [] []) (\<lambda>r.
     bnd (call Display [r] []) (\<lambda>_.
     ret (fig, ax))))))))))"

text \<open>Cell 33: \<open>data.rio.to_raster("output_raster.tif")\<close>.\<close>

definition cell33 :: "'o val \<Rightarrow> ('o, 'w, unit) nb" where
  "cell33 data =
     bnd (call Rio_to_raster [data, VStr ''output_raster.tif''] []) (\<lambda>r.
     bnd (call Display [r] []) (\<lambda>_.
     ret ()))"

subsection \<open>The notebook\<close>

text \<open>The global names of the notebook after the last cell.\<close>

record 'o env =
  url :: "'o val"
  data :: "'o val"
  data_reprojected :: "'o val"
  bbox_var :: "'o val"
  clipped_data :: "'o val"
  geojson_path :: "'o val"
  bounds :: "'o val"
  clipped_data2 :: "'o val"
  resampled_data :: "'o val"
  min_x :: "'o val"
  max_x :: "'o val"
  min_y :: "'o val"
  max_y :: "'o val"
  subset :: "'o val"
  fig :: "'o val"
  ax :: "'o val"

text \<open>All cells, from top to bottom.\<close>

definition notebook :: "('o, 'w, 'o env) nb" where
  "notebook =
     bnd cell3 (\<lambda>_.
     bnd cell5 (\<lambda>(url, data).
     bnd (cell7 data) (\<lambda>_.
     bnd (cell8 data) (\<lambda>_.
     bnd (cell9 data) (\<lambda>_.
     bnd (cell11 data) (\<lambda>_.
     bnd (cell12 data) (\<lambda>_.
     bnd (cell14 data) (\<lambda>data_reprojected.
     bnd (cell16 data_reprojected) (\<lambda>(bbox, clipped_data).
     bnd (cell17 clipped_data) (\<lambda>_.
     bnd (cell19 data) (\<lambda>(geojson_path, bounds, clipped_data2).
     bnd (cell20 clipped_data2) (\<lambda>_.
     bnd (cell22 data) (\<lambda>resampled_data.
     bnd (cell23 resampled_data) (\<lambda>_.
     bnd (cell25 data_reprojected) (\<lambda>(min_x, max_x, min_y, max_y, subset).
     bnd (cell27 data_reprojected) (\<lambda>_.
     bnd (cell29 clipped_data) (\<lambda>_.
     bnd (cell31 data bounds) (\<lambda>(fig, ax).
     bnd (cell33 data) (\<lambda>_.
     ret \<lparr>url = url, data = data, data_reprojected = data_reprojected,
          bbox_var = bbox, clipped_data = clipped_data,
          geojson_path = geojson_path, bounds = bounds,
          clipped_data2 = clipped_data2, resampled_data = resampled_data,
          min_x = min_x, max_x = max_x, min_y = min_y, max_y = max_y,
          subset = subset, fig = fig, ax = ax\<rparr>)))))))))))))))))))"

text \<open>A run of the whole notebook in a fresh kernel: the log starts empty.\<close>

definition run :: "('o, 'w) library \<Rightarrow> 'w \<Rightarrow> (exn + 'o env) \<times> 'w \<times> 'o event list" where
  "run lib w = notebook lib (w, [])"


section \<open>Properties of runs\<close>

subsection \<open>Vocabulary\<close>

text \<open>An event succeeded when the library answered with a value.\<close>

definition ok :: "'o event \<Rightarrow> bool" where
  "ok ev = (case ev_resp ev of Inl e \<Rightarrow> False | Inr v \<Rightarrow> True)"

text \<open>
  The one exception the notebook can raise without a failing library call: the unpacking
  \<open>fig, ax = plt.subplots(..)\<close> of cell 31. The log then ends with the answered call of
  \<open>plt.subplots\<close>, and \<open>e\<close> is what unpacking that answer raises.
\<close>

definition unpack_failed :: "exn \<Rightarrow> 'o event list \<Rightarrow> bool" where
  "unpack_failed e evs =
     (evs \<noteq> [] \<and> ev_fn (last evs) = Plt_subplots \<and>
      (case ev_resp (last evs) of Inl x \<Rightarrow> False | Inr v \<Rightarrow> unpack2 v = Inl e))"

text \<open>
  How the events \<open>evs\<close> of a piece of code relate to the calls \<open>L\<close> it makes when
  nothing fails. With a result, the events are exactly the calls of \<open>L\<close>, all answered
  with a value. With an exception \<open>e\<close>, the events are an initial part of \<open>L\<close>, all but
  the last answered with a value, and either the last event is the call that raised
  \<open>e\<close>, or every call succeeded and \<open>e\<close> comes from unpacking the answer of
  \<open>plt.subplots\<close>, the last event.
\<close>

definition shape :: "exn + 'a \<Rightarrow> 'o event list \<Rightarrow> fn list \<Rightarrow> bool" where
  "shape r evs L =
     (case r of
        Inr x \<Rightarrow> map ev_fn evs = L \<and> list_all ok evs
      | Inl e \<Rightarrow>
          prefix (map ev_fn evs) L \<and> list_all ok (butlast evs) \<and>
          (evs \<noteq> [] \<and> ev_resp (last evs) = Inl e \<or> list_all ok evs \<and> unpack_failed e evs))"

definition conforms :: "('o, 'w, 'a) nb \<Rightarrow> fn list \<Rightarrow> bool" where
  "conforms m L =
     (\<forall>lib w tr. \<exists>evs.
        snd (snd (m lib (w, tr))) = tr @ evs \<and> shape (fst (m lib (w, tr))) evs L)"

text \<open>The calls of a complete run, one line for each cell.\<close>

definition notebook_calls :: "fn list" where
  "notebook_calls =
     [Import, Import, Import, Xr_set_options, Display] @
     [Open_rasterio, Display] @
     [Dims, Print, Display] @
     [Coords, Print, Display] @
     [Attrs, Print, Display] @
     [Rio_crs, Print, Display] @
     [Rio_transform, Print, Display] @
     [Rio_reproject, Rio_crs, Print, Display] @
     [Rio_clip_box] @
     [Shape, Display] @
     [Import, Gpd_read_file, Geometry, Crs, Rio_clip] @
     [Shape, Display] @
     [Rio_crs, Rio_reproject] @
     [Shape, Display] @
     [Sel, Shape, Display] @
     [Plt_figure, Sel, Plot_imshow, Plt_title, Plt_xlabel, Plt_ylabel, Plt_show, Display] @
     [Plt_figure, Sel, Plot_imshow, Plt_title, Plt_xlabel, Plt_ylabel, Plt_show, Display] @
     [Plt_subplots, Sel, Plot_imshow, Boundary, Geo_plot, Plt_title, Plt_show, Display] @
     [Rio_to_raster, Display]"

text \<open>The event of a call that the library answered with the value \<open>v\<close>.\<close>

abbreviation Ev :: "fn \<Rightarrow> 'o val list \<Rightarrow> (string \<times> 'o val) list \<Rightarrow> 'o val \<Rightarrow> 'o event" where
  "Ev f a k v \<equiv> \<lparr>ev_fn = f, ev_args = a, ev_kwargs = k, ev_resp = Inr v\<rparr>"

subsection \<open>Effects on the outside world\<close>

text \<open>A file name that is a URL, as opposed to a path on the local disk.\<close>

definition is_url :: "string \<Rightarrow> bool" where
  "is_url s = (take 8 s = ''https://'' \<or> take 7 s = ''http://'')"

text \<open>
  What a call asks of the outside world, read off the function called and the location it
  is given. A file is read or written remotely when its name is a URL and locally
  otherwise; a file call whose location is no string is \<open>Unnamed_file\<close>. An import
  loads a library from the Python installation. \<open>print\<close> and the display hook show a
  value as text. The plotting calls draw on, or show, a figure. \<open>In_memory\<close> is a call
  that names no file, URL or output channel: a property or accessor read, a selection, a
  transform, \<open>xr.set_options\<close>. What a library reads or writes on its own while it serves
  a call (pixels the load left unread, caches) is not part of the notebook and not part of
  this classification.
\<close>

datatype effect =
    Load_library
  | Read_remote_raster
  | Read_local_raster
  | Read_remote_vector
  | Read_local_vector
  | Write_local_raster
  | Write_remote_raster
  | Unnamed_file
  | Render_plot
  | Show_value
  | In_memory

fun located :: "effect \<Rightarrow> effect \<Rightarrow> 'o val list \<Rightarrow> effect" where
  "located remote local (VStr s # rest) = (if is_url s then remote else local)"
| "located remote local args = Unnamed_file"

text \<open>Every external function is listed: there is no default case.\<close>

definition effect_of :: "'o event \<Rightarrow> effect" where
  "effect_of ev =
     (case ev_fn ev of
        Import \<Rightarrow> Load_library
      | Xr_set_options \<Rightarrow> In_memory
      | Open_rasterio \<Rightarrow> located Read_remote_raster Read_local_raster (ev_args ev)
      | Display \<Rightarrow> Show_value
      | Print \<Rightarrow> Show_value
      | Dims \<Rightarrow> In_memory
      | Coords \<Rightarrow> In_memory
      | Attrs \<Rightarrow> In_memory
      | Rio_crs \<Rightarrow> In_memory
      | Rio_transform \<Rightarrow> In_memory
      | Rio_reproject \<Rightarrow> In_memory
      | Rio_clip_box \<Rightarrow> In_memory
      | Gpd_read_file \<Rightarrow> located Read_remote_vector Read_local_vector (ev_args ev)
      | Geometry \<Rightarrow> In_memory
      | Crs \<Rightarrow> In_memory
      | Rio_clip \<Rightarrow> In_memory
      | Shape \<Rightarrow> In_memory
      | Sel \<Rightarrow> In_memory
      | Plt_figure \<Rightarrow> Render_plot
      | Plot_imshow \<Rightarrow> Render_plot
      | Plt_title \<Rightarrow> Render_plot
      | Plt_xlabel \<Rightarrow> Render_plot
      | Plt_ylabel \<Rightarrow> Render_plot
      | Plt_show \<Rightarrow> Render_plot
      | Plt_subplots \<Rightarrow> Render_plot
      | Boundary \<Rightarrow> In_memory
      | Geo_plot \<Rightarrow> Render_plot
      | Rio_to_raster \<Rightarrow> located Write_remote_raster Write_local_raster (tl (ev_args ev)))"

text \<open>The four kinds of effect the specification lists, and a log in which every call
  that is not in memory has one of them.\<close>

definition four_kinds :: "effect list" where
  "four_kinds = [Read_remote_raster, Read_remote_vector, Write_local_raster, Render_plot]"

definition only_four_kinds :: "'o event list \<Rightarrow> bool" where
  "only_four_kinds tr =
     list_all (\<lambda>ev. effect_of ev = In_memory \<or> effect_of ev \<in> set four_kinds) tr"

text \<open>The kinds the notebook has: the four, the showing of values, and the imports.\<close>

definition six_kinds :: "effect list" where
  "six_kinds = four_kinds @ [Show_value, Load_library]"

definition within_six :: "'o event \<Rightarrow> bool" where
  "within_six ev = (effect_of ev = In_memory \<or> effect_of ev \<in> set six_kinds)"

subsection \<open>Phases of the tutorial\<close>

text \<open>
  The five steps of the specification's overview. \<open>Rio_crs\<close> carries no phase: the
  notebook reads the CRS when it inspects the loaded raster, again after reprojecting and
  again as the argument of the resampling. \<open>Sel\<close>, \<open>Shape\<close>, \<open>Print\<close>, the display
  hook, the imports and the reads on \<open>bounds\<close> occur in several steps too.
\<close>

datatype phase = Load | Inspect | Transform | Visualize | Export

fun phase_of :: "fn \<Rightarrow> phase option" where
  "phase_of Open_rasterio = Some Load"
| "phase_of Dims = Some Inspect"
| "phase_of Coords = Some Inspect"
| "phase_of Attrs = Some Inspect"
| "phase_of Rio_transform = Some Inspect"
| "phase_of Rio_reproject = Some Transform"
| "phase_of Rio_clip_box = Some Transform"
| "phase_of Rio_clip = Some Transform"
| "phase_of Plt_figure = Some Visualize"
| "phase_of Plt_subplots = Some Visualize"
| "phase_of Plot_imshow = Some Visualize"
| "phase_of Geo_plot = Some Visualize"
| "phase_of Plt_title = Some Visualize"
| "phase_of Plt_xlabel = Some Visualize"
| "phase_of Plt_ylabel = Some Visualize"
| "phase_of Plt_show = Some Visualize"
| "phase_of Rio_to_raster = Some Export"
| "phase_of f = None"

fun rank :: "phase \<Rightarrow> nat" where
  "rank Load = 0"
| "rank Inspect = 1"
| "rank Transform = 2"
| "rank Visualize = 3"
| "rank Export = 4"

subsection \<open>A contract for the CRS of a dataset\<close>

text \<open>
  What the resampling step relies on from \<open>rioxarray\<close>, stated for a library of the
  model. Every dataset \<open>d\<close> has a CRS value \<open>crs_of d\<close>; \<open>d.rio.crs\<close> reads it; and
  when the target of \<open>d.rio.reproject(t, ...)\<close> is the CRS value of some dataset, the
  dataset returned has that CRS. Nothing is asked for a target of another form (a name
  such as \<open>"EPSG:4326"\<close>, a number): there a library may answer with a CRS object that
  is not the target value itself. The library is not part of the repository; the
  contract is a hypothesis wherever it is used.
\<close>

definition crs_contract :: "('o, 'w) library \<Rightarrow> ('o val \<Rightarrow> 'o val) \<Rightarrow> bool" where
  "crs_contract lib crs_of =
     ((\<forall>d w v w'. lib Rio_crs [d] [] w = (Inr v, w') \<longrightarrow> v = crs_of d) \<and>
      (\<forall>d d' kw w v w'.
         lib Rio_reproject [d, crs_of d'] kw w = (Inr v, w') \<longrightarrow> crs_of v = crs_of d'))"

subsection \<open>Properties of every event of a log\<close>

text \<open>An event is genuine for a library when the library gives this answer to this call in
  some state of the world. A piece of code keeps a property of events when it adds only
  events with the property to a log.\<close>

definition genuine :: "('o, 'w) library \<Rightarrow> 'o event \<Rightarrow> bool" where
  "genuine lib ev = (\<exists>w1 w2. lib (ev_fn ev) (ev_args ev) (ev_kwargs ev) w1 = (ev_resp ev, w2))"

definition keeps :: "(('o, 'w) library \<Rightarrow> 'o event \<Rightarrow> bool) \<Rightarrow> ('o, 'w, 'a) nb \<Rightarrow> bool" where
  "keeps P m =
     (\<forall>lib w tr. list_all (P lib) tr \<longrightarrow> list_all (P lib) (snd (snd (m lib (w, tr)))))"

subsection \<open>Libraries to run the notebook against\<close>

text \<open>
  \<open>lib_fresh\<close> answers every call: \<open>print\<close>, the display hook, \<open>plt.show\<close>,
  \<open>to_raster\<close> and imports with \<open>None\<close>, \<open>plt.subplots\<close> with a pair of new objects,
  every other call with a new object. The world is the number of objects made so far.
  \<open>lib_no_data\<close> is the same library, except that \<open>rio.clip\<close> raises
  \<open>NoDataInBounds\<close>.
\<close>

definition lib_fresh :: "(nat, nat) library" where
  "lib_fresh f args kwargs n =
     (case f of
        Plt_subplots \<Rightarrow> (Inr (VTuple [VObj n, VObj (n + 1)]), n + 2)
      | Print \<Rightarrow> (Inr VNone, n)
      | Display \<Rightarrow> (Inr VNone, n)
      | Plt_show \<Rightarrow> (Inr VNone, n)
      | Rio_to_raster \<Rightarrow> (Inr VNone, n)
      | Import \<Rightarrow> (Inr VNone, n)
      | _ \<Rightarrow> (Inr (VObj n), n + 1))"

definition lib_no_data :: "(nat, nat) library" where
  "lib_no_data f args kwargs n =
     (if f = Rio_clip then (Inl (Exn ''NoDataInBounds''), n)
      else lib_fresh f args kwargs n)"

text \<open>
  \<open>lib_geo\<close> tells the kinds of object apart. A raster dataset carries the name of its
  CRS; \<open>rio.crs\<close> answers with a CRS object, never with a string; \<open>rio.reproject\<close>
  makes a new dataset in the CRS the target names, be the target a CRS object or a name;
  clipping and selecting make a new dataset in the CRS of their input. A call on an
  object of the wrong kind raises, as an attribute missing on that object would.
\<close>

datatype obj = Raster nat string | Crs_obj string | Frame nat | Thing nat

fun raster_crs :: "obj val list \<Rightarrow> string option" where
  "raster_crs (VObj (Raster i c) # rest) = Some c"
| "raster_crs args = None"

fun target_crs :: "obj val list \<Rightarrow> string option" where
  "target_crs [VStr s] = Some s"
| "target_crs [VObj (Crs_obj c)] = Some c"
| "target_crs args = None"

fun is_frame :: "obj val list \<Rightarrow> bool" where
  "is_frame (VObj (Frame i) # rest) = True"
| "is_frame args = False"

fun is_name :: "obj val list \<Rightarrow> bool" where
  "is_name (VStr s # rest) = True"
| "is_name args = False"

definition on_raster ::
  "obj val list \<Rightarrow> nat \<Rightarrow> (string \<Rightarrow> (exn + obj val) \<times> nat) \<Rightarrow> (exn + obj val) \<times> nat" where
  "on_raster args n k =
     (case raster_crs args of
        None \<Rightarrow> (Inl (Exn ''AttributeError''), n)
      | Some c \<Rightarrow> k c)"

definition on_frame ::
  "obj val list \<Rightarrow> nat \<Rightarrow> (exn + obj val) \<times> nat \<Rightarrow> (exn + obj val) \<times> nat" where
  "on_frame args n k = (if is_frame args then k else (Inl (Exn ''AttributeError''), n))"

definition lib_geo :: "(obj, nat) library" where
  "lib_geo f args kwargs n =
     (case f of
        Import \<Rightarrow> (Inr VNone, n)
      | Xr_set_options \<Rightarrow> (Inr (VObj (Thing n)), n + 1)
      | Open_rasterio \<Rightarrow>
          (if is_name args then (Inr (VObj (Raster n ''EPSG:32611'')), n + 1)
           else (Inl (Exn ''TypeError''), n))
      | Display \<Rightarrow> (Inr VNone, n)
      | Print \<Rightarrow> (Inr VNone, n)
      | Dims \<Rightarrow> on_raster args n (\<lambda>c. (Inr (VTuple [VStr ''band'', VStr ''y'', VStr ''x'']), n))
      | Coords \<Rightarrow> on_raster args n (\<lambda>c. (Inr (VObj (Thing n)), n + 1))
      | Attrs \<Rightarrow> on_raster args n (\<lambda>c. (Inr (VObj (Thing n)), n + 1))
      | Rio_crs \<Rightarrow> on_raster args n (\<lambda>c. (Inr (VObj (Crs_obj c)), n))
      | Rio_transform \<Rightarrow> on_raster args n (\<lambda>c. (Inr (VObj (Thing n)), n + 1))
      | Rio_reproject \<Rightarrow>
          on_raster args n (\<lambda>c.
            case target_crs (tl args) of
              None \<Rightarrow> (Inl (Exn ''CRSError''), n)
            | Some t \<Rightarrow> (Inr (VObj (Raster n t)), n + 1))
      | Rio_clip_box \<Rightarrow> on_raster args n (\<lambda>c. (Inr (VObj (Raster n c)), n + 1))
      | Gpd_read_file \<Rightarrow>
          (if is_name args then (Inr (VObj (Frame n)), n + 1)
           else (Inl (Exn ''TypeError''), n))
      | Geometry \<Rightarrow> on_frame args n (Inr (VObj (Frame n)), n + 1)
      | Crs \<Rightarrow> on_frame args n (Inr (VObj (Crs_obj ''EPSG:32611'')), n)
      | Rio_clip \<Rightarrow> on_raster args n (\<lambda>c. (Inr (VObj (Raster n c)), n + 1))
      | Shape \<Rightarrow> on_raster args n (\<lambda>c. (Inr (VTuple [VInt 7, VInt 100, VInt 100]), n))
      | Sel \<Rightarrow> on_raster args n (\<lambda>c. (Inr (VObj (Raster n c)), n + 1))
      | Plt_figure \<Rightarrow> (Inr (VObj (Thing n)), n + 1)
      | Plot_imshow \<Rightarrow> on_raster args n (\<lambda>c. (Inr (VObj (Thing n)), n + 1))
      | Plt_title \<Rightarrow> (Inr (VObj (Thing n)), n + 1)
      | Plt_xlabel \<Rightarrow> (Inr (VObj (Thing n)), n + 1)
      | Plt_ylabel \<Rightarrow> (Inr (VObj (Thing n)), n + 1)
      | Plt_show \<Rightarrow> (Inr VNone, n)
      | Plt_subplots \<Rightarrow> (Inr (VTuple [VObj (Thing n), VObj (Thing (n + 1))]), n + 2)
      | Boundary \<Rightarrow> on_frame args n (Inr (VObj (Frame n)), n + 1)
      | Geo_plot \<Rightarrow> on_frame args n (Inr (VObj (Thing n)), n + 1)
      | Rio_to_raster \<Rightarrow> on_raster args n (\<lambda>c. (Inr VNone, n)))"

text \<open>The CRS value of a dataset of \<open>lib_geo\<close>: the CRS object of its CRS name.\<close>

fun crs_of_geo :: "obj val \<Rightarrow> obj val" where
  "crs_of_geo (VObj (Raster i c)) = VObj (Crs_obj c)"
| "crs_of_geo v = VNone"

text \<open>The global names at the end of the run against \<open>lib_fresh\<close>.\<close>

definition env_fresh :: "nat env" where
  "env_fresh =
     \<lparr>url = VStr raster_url, data = VObj 1, data_reprojected = VObj 7,
      bbox_var = VList bbox, clipped_data = VObj 9,
      geojson_path = VStr geojson_url, bounds = VObj 11, clipped_data2 = VObj 14,
      resampled_data = VObj 17,
      min_x = VFloat (- 115.391), max_x = VFloat (- 114.988),
      min_y = VFloat 35.982, max_y = VFloat 36.425,
      subset = VObj 19, fig = VObj 33, ax = VObj 34\<rparr>"

section \<open>Every run follows the calls of the notebook\<close>

lemma conforms_ret: "conforms (ret x) []"
  by (simp add: conforms_def ret_def shape_def)

lemma conforms_call: "conforms (call f a k) [f]"
  by (auto simp: conforms_def call_def shape_def ok_def split: prod.splits sum.splits)

lemma list_all_butlast: "list_all P xs \<Longrightarrow> list_all P (butlast xs)"
  by (auto simp: list_all_iff dest: in_set_butlastD)

lemma shape_append_Inr:
  assumes "map ev_fn evs1 = L1" "list_all ok evs1" "shape r evs2 L2"
  shows "shape r (evs1 @ evs2) (L1 @ L2)"
proof (cases r)
  case (Inr x)
  with assms show ?thesis by (simp add: shape_def)
next
  case (Inl e)
  from assms(3) Inl have p: "prefix (map ev_fn evs2) L2"
    and b: "list_all ok (butlast evs2)"
    and d: "evs2 \<noteq> [] \<and> ev_resp (last evs2) = Inl e \<or>
      list_all ok evs2 \<and> unpack_failed e evs2"
    by (simp_all add: shape_def)
  have "prefix (map ev_fn (evs1 @ evs2)) (L1 @ L2)"
    using p assms(1) by simp
  moreover have "list_all ok (butlast (evs1 @ evs2))"
    using b assms(2) by (simp add: butlast_append list_all_butlast)
  moreover have "(evs1 @ evs2 \<noteq> [] \<and> ev_resp (last (evs1 @ evs2)) = Inl e) \<or>
      (list_all ok (evs1 @ evs2) \<and> unpack_failed e (evs1 @ evs2))"
    using d assms(2) by (auto simp: unpack_failed_def)
  ultimately show ?thesis using Inl by (simp add: shape_def)
qed

lemma shape_Inl_weaken:
  assumes "shape (Inl e) evs L1"
  shows "shape (Inl e) evs (L1 @ L2)"
  using assms by (auto simp: shape_def)

lemma conforms_bnd:
  assumes m: "conforms m L1" and k: "\<And>x. conforms (k x) L2"
  shows "conforms (bnd m k) (L1 @ L2)"
  unfolding conforms_def
proof (intro allI)
  fix lib w tr
  obtain r1 w1 tr1 where r1: "m lib (w, tr) = (r1, w1, tr1)"
    by (cases "m lib (w, tr)") auto
  from m r1 obtain evs1 where e1: "tr1 = tr @ evs1" and s1: "shape r1 evs1 L1"
    unfolding conforms_def by (metis fst_conv snd_conv)
  show "\<exists>evs. snd (snd (bnd m k lib (w, tr))) = tr @ evs \<and>
          shape (fst (bnd m k lib (w, tr))) evs (L1 @ L2)"
  proof (cases r1)
    case (Inl e)
    then have "bnd m k lib (w, tr) = (Inl e, w1, tr1)"
      using r1 by (simp add: bnd_def)
    with e1 s1 Inl show ?thesis
      by (auto intro: shape_Inl_weaken)
  next
    case (Inr x)
    then have b: "bnd m k lib (w, tr) = k x lib (w1, tr1)"
      using r1 by (simp add: bnd_def)
    from k[of x] obtain evs2 where e2: "snd (snd (k x lib (w1, tr1))) = tr1 @ evs2"
      and s2: "shape (fst (k x lib (w1, tr1))) evs2 L2"
      unfolding conforms_def by blast
    from s1 Inr have "map ev_fn evs1 = L1" "list_all ok evs1"
      by (simp_all add: shape_def)
    then have "shape (fst (k x lib (w1, tr1))) (evs1 @ evs2) (L1 @ L2)"
      using s2 by (rule shape_append_Inr)
    with b e1 e2 show ?thesis by auto
  qed
qed

lemma conforms_bnd_call:
  assumes "\<And>x. conforms (k x) L"
  shows "conforms (bnd (call f a kw) k) (f # L)"
  using conforms_bnd[OF conforms_call, of k L f a kw] assms by simp

text \<open>The call of \<open>plt.subplots\<close> together with the unpacking of its answer.\<close>

lemma conforms_subplots_unpack:
  assumes k: "\<And>p. conforms (k p :: ('o, 'w, 'b) nb) L"
  shows "conforms (bnd (call Plt_subplots a kw) (\<lambda>fa. bnd (unpack fa) k)) (Plt_subplots # L)"
  unfolding conforms_def
proof (intro allI)
  fix lib :: "('o, 'w) library" and w :: 'w and tr :: "'o event list"
  let ?m = "bnd (call Plt_subplots a kw) (\<lambda>fa. bnd (unpack fa) k)"
  obtain r1 w1 where l: "lib Plt_subplots a kw w = (r1, w1)"
    by (cases "lib Plt_subplots a kw w") auto
  let ?ev = "\<lparr>ev_fn = Plt_subplots, ev_args = a, ev_kwargs = kw, ev_resp = r1\<rparr>"
  show "\<exists>evs. snd (snd (?m lib (w, tr))) = tr @ evs \<and>
          shape (fst (?m lib (w, tr))) evs (Plt_subplots # L)"
  proof (cases r1)
    case (Inl e)
    with l have "?m lib (w, tr) = (Inl e, w1, tr @ [?ev])"
      by (simp add: bnd_def call_def)
    with Inl show ?thesis by (simp add: shape_def)
  next
    case (Inr v)
    show ?thesis
    proof (cases "unpack2 v")
      case (Inl e)
      with l Inr have "?m lib (w, tr) = (Inl e, w1, tr @ [?ev])"
        by (simp add: bnd_def call_def unpack_def raise_def)
      with Inl Inr show ?thesis
        by (simp add: shape_def ok_def unpack_failed_def)
    next
      case u: (Inr p)
      with l Inr have b: "?m lib (w, tr) = k p lib (w1, tr @ [?ev])"
        by (simp add: bnd_def call_def unpack_def ret_def)
      from k[of p] obtain evs2 where
        e2: "snd (snd (k p lib (w1, tr @ [?ev]))) = (tr @ [?ev]) @ evs2" and
        s2: "shape (fst (k p lib (w1, tr @ [?ev]))) evs2 L"
        unfolding conforms_def by blast
      have "shape (fst (k p lib (w1, tr @ [?ev]))) ([?ev] @ evs2) ([Plt_subplots] @ L)"
        using s2 Inr by (intro shape_append_Inr) (simp_all add: ok_def)
      with b e2 show ?thesis by auto
    qed
  qed
qed

lemma conforms_case_prod:
  assumes "\<And>a b. conforms (f a b) L"
  shows "conforms (case p of (a, b) \<Rightarrow> f a b) L"
  using assms by (cases p) simp

lemmas conforms_steps =
  conforms_bnd_call conforms_case_prod conforms_ret

lemma conforms_cell3: "conforms cell3 [Import, Import, Import, Xr_set_options, Display]"
  unfolding cell3_def by (intro conforms_steps)

lemma conforms_cell5: "conforms cell5 [Open_rasterio, Display]"
  unfolding cell5_def Let_def by (intro conforms_steps)

lemma conforms_cell7: "conforms (cell7 d) [Dims, Print, Display]"
  unfolding cell7_def by (intro conforms_steps)

lemma conforms_cell8: "conforms (cell8 d) [Coords, Print, Display]"
  unfolding cell8_def by (intro conforms_steps)

lemma conforms_cell9: "conforms (cell9 d) [Attrs, Print, Display]"
  unfolding cell9_def by (intro conforms_steps)

lemma conforms_cell11: "conforms (cell11 d) [Rio_crs, Print, Display]"
  unfolding cell11_def by (intro conforms_steps)

lemma conforms_cell12: "conforms (cell12 d) [Rio_transform, Print, Display]"
  unfolding cell12_def by (intro conforms_steps)

lemma conforms_cell14: "conforms (cell14 d) [Rio_reproject, Rio_crs, Print, Display]"
  unfolding cell14_def by (intro conforms_steps)

lemma conforms_cell16: "conforms (cell16 d) [Rio_clip_box]"
  unfolding cell16_def by (intro conforms_steps)

lemma conforms_cell17: "conforms (cell17 d) [Shape, Display]"
  unfolding cell17_def by (intro conforms_steps)

lemma conforms_cell19:
  "conforms (cell19 d) [Import, Gpd_read_file, Geometry, Crs, Rio_clip]"
  unfolding cell19_def Let_def by (intro conforms_steps)

lemma conforms_cell20: "conforms (cell20 d) [Shape, Display]"
  unfolding cell20_def by (intro conforms_steps)

lemma conforms_cell22: "conforms (cell22 d) [Rio_crs, Rio_reproject]"
  unfolding cell22_def by (intro conforms_steps)

lemma conforms_cell23: "conforms (cell23 d) [Shape, Display]"
  unfolding cell23_def by (intro conforms_steps)

lemma conforms_cell25: "conforms (cell25 d) [Sel, Shape, Display]"
  unfolding cell25_def Let_def by (intro conforms_steps)

lemma conforms_plot_rgb:
  "conforms (plot_rgb d)
     [Plt_figure, Sel, Plot_imshow, Plt_title, Plt_xlabel, Plt_ylabel, Plt_show, Display]"
  unfolding plot_rgb_def by (intro conforms_steps)

lemma conforms_cell27:
  "conforms (cell27 d)
     [Plt_figure, Sel, Plot_imshow, Plt_title, Plt_xlabel, Plt_ylabel, Plt_show, Display]"
  unfolding cell27_def by (rule conforms_plot_rgb)

lemma conforms_cell29:
  "conforms (cell29 d)
     [Plt_figure, Sel, Plot_imshow, Plt_title, Plt_xlabel, Plt_ylabel, Plt_show, Display]"
  unfolding cell29_def by (rule conforms_plot_rgb)

lemma conforms_cell31:
  "conforms (cell31 d b)
     [Plt_subplots, Sel, Plot_imshow, Boundary, Geo_plot, Plt_title, Plt_show, Display]"
  unfolding cell31_def by (rule conforms_subplots_unpack) (intro conforms_steps)

lemma conforms_cell33: "conforms (cell33 d) [Rio_to_raster, Display]"
  unfolding cell33_def by (intro conforms_steps)

lemmas conforms_cells =
  conforms_cell3 conforms_cell5 conforms_cell7 conforms_cell8 conforms_cell9
  conforms_cell11 conforms_cell12 conforms_cell14 conforms_cell16 conforms_cell17
  conforms_cell19 conforms_cell20 conforms_cell22 conforms_cell23 conforms_cell25
  conforms_cell27 conforms_cell29 conforms_cell31 conforms_cell33

lemma conforms_notebook: "conforms notebook notebook_calls"
proof -
  have "conforms (notebook :: ('o, 'w, 'o env) nb) (notebook_calls @ [])"
    unfolding notebook_def notebook_calls_def append_assoc
    by (intro conforms_bnd conforms_cells conforms_case_prod conforms_ret)
  then show ?thesis by simp
qed

text \<open>What \<open>conforms_notebook\<close> says of a run from the empty log.\<close>

lemma run_shape:
  assumes "run lib w = (r, w', tr)"
  shows "shape r tr notebook_calls"
proof -
  have "\<exists>evs. snd (snd (notebook lib (w, []))) = [] @ evs \<and>
          shape (fst (notebook lib (w, []))) evs notebook_calls"
    using conforms_notebook[unfolded conforms_def, THEN spec, THEN spec, THEN spec] .
  with assms show ?thesis by (auto simp: run_def)
qed

lemma run_calls_prefix:
  assumes "run lib w = (r, w', tr)"
  shows "prefix (map ev_fn tr) notebook_calls"
  using run_shape[OF assms] by (cases r) (auto simp: shape_def)

lemma run_calls_complete:
  assumes "run lib w = (Inr env, w', tr)"
  shows "map ev_fn tr = notebook_calls" and "list_all ok tr"
  using run_shape[OF assms] by (simp_all add: shape_def)

text \<open>Unfolding these equations runs the notebook against a concrete library.\<close>

lemmas cell_defs =
  cell3_def cell5_def cell7_def cell8_def cell9_def cell11_def cell12_def cell14_def
  cell16_def cell17_def cell19_def cell20_def cell22_def cell23_def cell25_def
  plot_rgb_def cell27_def cell29_def cell31_def cell33_def

lemmas exec_defs =
  run_def notebook_def cell_defs bnd_def call_def ret_def raise_def unpack_def Let_def

section \<open>Exceptions\<close>

text \<open>Where \<open>plt.subplots\<close> stands among the calls of the notebook: once, as call 59.\<close>

lemma subplots_position:
  assumes "i < length notebook_calls" and "notebook_calls ! i = Plt_subplots"
  shows "i = 59"
proof -
  have split: "notebook_calls = take 59 notebook_calls @ Plt_subplots # drop 60 notebook_calls"
    by (simp add: notebook_calls_def)
  have pre: "Plt_subplots \<notin> set (take 59 notebook_calls)"
    by (simp add: notebook_calls_def)
  have post: "Plt_subplots \<notin> set (drop 60 notebook_calls)"
    by (simp add: notebook_calls_def)
  have len: "length notebook_calls = 69"
    by (simp add: notebook_calls_def)
  show ?thesis
  proof (rule ccontr)
    assume ne: "i \<noteq> 59"
    show False
    proof (cases "i < 59")
      case True
      with len have "take 59 notebook_calls ! i = notebook_calls ! i" by simp
      moreover from True len have "take 59 notebook_calls ! i \<in> set (take 59 notebook_calls)"
        by (intro nth_mem) simp
      ultimately show False using pre assms(2) by simp
    next
      case False
      with ne have gt: "60 \<le> i" by simp
      with assms(1) len have "drop 60 notebook_calls ! (i - 60) = notebook_calls ! i"
        by simp
      moreover from gt assms(1) len
      have "drop 60 notebook_calls ! (i - 60) \<in> set (drop 60 notebook_calls)"
        by (intro nth_mem) simp
      ultimately show False using post assms(2) by simp
    qed
  qed
qed

text \<open>
  C2. The notebook catches nothing, checks nothing and retries nothing. Whenever a
  library call of a run raises an exception \<open>e\<close>, the run ends with exactly \<open>e\<close> and
  that call is the last event of the log: no later call is made. And a run that ends with
  an exception \<open>e\<close> got it from its last library call, with one exception that is
  Python's and not a check of the notebook: every call succeeded, the log ends with call
  59, \<open>plt.subplots\<close>, and \<open>e\<close> is what the unpacking \<open>fig, ax = ...\<close> of its answer
  raises. The notebook raises nothing else by itself, after no other call and for no other
  reason.
\<close>

theorem library_error_propagates:
  assumes "run lib w = (r, w', tr)"
  shows "(\<forall>i e. i < length tr \<and> ev_resp (tr ! i) = Inl e \<longrightarrow> r = Inl e \<and> Suc i = length tr) \<and>
         (\<forall>e. r = Inl e \<longrightarrow>
            tr \<noteq> [] \<and>
            (ev_resp (last tr) = Inl e \<or>
             list_all ok tr \<and> length tr = 60 \<and> ev_fn (last tr) = Plt_subplots \<and>
             (\<exists>v. ev_resp (last tr) = Inr v \<and> unpack2 v = Inl e)))"
proof (rule conjI)
 show "\<forall>i e. i < length tr \<and> ev_resp (tr ! i) = Inl e \<longrightarrow> r = Inl e \<and> Suc i = length tr"
 proof (intro allI impI conjI)
  fix i e
  assume a: "i < length tr \<and> ev_resp (tr ! i) = Inl e"
  then have nok: "\<not> ok (tr ! i)" by (simp add: ok_def)
  have sh: "shape r tr notebook_calls" by (rule run_shape[OF assms])
  show "r = Inl e"
  proof (cases r)
    case (Inr x)
    with sh have "list_all ok tr" by (simp add: shape_def)
    with a nok show ?thesis by (simp add: list_all_length)
  next
    case (Inl e')
    with sh have b: "list_all ok (butlast tr)"
      and d: "tr \<noteq> [] \<and> ev_resp (last tr) = Inl e' \<or> list_all ok tr \<and> unpack_failed e' tr"
      by (simp_all add: shape_def)
    from a nok have "\<not> list_all ok tr" by (auto simp: list_all_length)
    with d have l: "tr \<noteq> []" "ev_resp (last tr) = Inl e'" by auto
    have "i = length tr - 1"
    proof (rule ccontr)
      assume "i \<noteq> length tr - 1"
      with a have "i < length (butlast tr)" by auto
      with b have "ok (butlast tr ! i)" by (simp add: list_all_length)
      with \<open>i < length (butlast tr)\<close> nok show False by (simp add: nth_butlast)
    qed
    with l a have "ev_resp (tr ! i) = Inl e'" by (simp add: last_conv_nth)
    with a Inl show ?thesis by simp
  qed
  show "Suc i = length tr"
  proof (rule ccontr)
    assume "Suc i \<noteq> length tr"
    with a have lt: "i < length (butlast tr)" by auto
    have "list_all ok (butlast tr)"
      using sh by (cases r) (auto simp: shape_def list_all_butlast)
    with lt have "ok (butlast tr ! i)" by (simp add: list_all_length)
    with lt nok show False by (simp add: nth_butlast)
  qed
 qed
next
 show "\<forall>e. r = Inl e \<longrightarrow>
    tr \<noteq> [] \<and>
    (ev_resp (last tr) = Inl e \<or>
     list_all ok tr \<and> length tr = 60 \<and> ev_fn (last tr) = Plt_subplots \<and>
     (\<exists>v. ev_resp (last tr) = Inr v \<and> unpack2 v = Inl e))"
 proof (intro allI impI)
  fix e
  assume r: "r = Inl e"
  with run_shape[OF assms] have
    p: "prefix (map ev_fn tr) notebook_calls" and
    d: "tr \<noteq> [] \<and> ev_resp (last tr) = Inl e \<or> list_all ok tr \<and> unpack_failed e tr"
    by (simp_all add: shape_def)
  show "tr \<noteq> [] \<and>
     (ev_resp (last tr) = Inl e \<or>
      list_all ok tr \<and> length tr = 60 \<and> ev_fn (last tr) = Plt_subplots \<and>
      (\<exists>v. ev_resp (last tr) = Inr v \<and> unpack2 v = Inl e))"
  proof (cases "tr \<noteq> [] \<and> ev_resp (last tr) = Inl e")
    case True
    then show ?thesis by simp
  next
    case False
    with d have allok: "list_all ok tr" and u: "unpack_failed e tr" by auto
    from u have ne: "tr \<noteq> []" and f: "ev_fn (last tr) = Plt_subplots"
      and v: "\<exists>v. ev_resp (last tr) = Inr v \<and> unpack2 v = Inl e"
      by (auto simp: unpack_failed_def split: sum.splits)
    from p obtain zs where zs: "notebook_calls = map ev_fn tr @ zs"
      by (auto simp: prefix_def)
    from ne have lt: "length tr - 1 < length tr" by simp
    have "notebook_calls ! (length tr - 1) = ev_fn (tr ! (length tr - 1))"
      using lt by (simp add: zs nth_append)
    with f ne have at: "notebook_calls ! (length tr - 1) = Plt_subplots"
      by (simp add: last_conv_nth)
    have "length tr - 1 < length notebook_calls"
      using lt by (simp add: zs)
    from subplots_position[OF this at] ne have "length tr = 60" by simp
    with ne allok f v show ?thesis by simp
  qed
 qed
qed

text \<open>
  Against \<open>lib_no_data\<close> the call \<open>data.rio.clip(..)\<close> of cell 19 is event 33 of the
  run and raises \<open>NoDataInBounds\<close>: the run ends with that exception after 34 events.
\<close>

theorem library_error_propagates_witness:
  "(33 < length (snd (snd (run lib_no_data 0))) \<and>
    ev_resp (snd (snd (run lib_no_data 0)) ! 33) = Inl (Exn ''NoDataInBounds'')) \<and>
   fst (run lib_no_data 0) = Inl (Exn ''NoDataInBounds'') \<and>
   length (snd (snd (run lib_no_data 0))) = 34"
proof -
  have h: "33 < length (snd (snd (run lib_no_data 0))) \<and>
    ev_resp (snd (snd (run lib_no_data 0)) ! 33) = Inl (Exn ''NoDataInBounds'')"
    by (simp add: exec_defs lib_no_data_def lib_fresh_def)
  have eq: "run lib_no_data 0 =
     (fst (run lib_no_data 0), fst (snd (run lib_no_data 0)), snd (snd (run lib_no_data 0)))"
    by simp
  have "fst (run lib_no_data 0) = Inl (Exn ''NoDataInBounds'') \<and>
    Suc 33 = length (snd (snd (run lib_no_data 0)))"
    using library_error_propagates[OF eq, THEN conjunct1, rule_format, OF h] .
  with h show ?thesis by simp
qed

section \<open>Complete runs\<close>

lemma bnd_Inr:
  "bnd m k lib s = (Inr y, s'') \<longleftrightarrow>
     (\<exists>x s'. m lib s = (Inr x, s') \<and> k x lib s' = (Inr y, s''))"
  by (auto simp: bnd_def split: prod.splits sum.splits)

lemma call_Inr:
  "call f a k lib (w, tr) = (Inr v, w', tr') \<longleftrightarrow>
     lib f a k w = (Inr v, w') \<and> tr' = tr @ [Ev f a k v]"
  by (auto simp: call_def split: prod.splits)

lemma ret_Inr: "ret x lib s = (Inr y, s') \<longleftrightarrow> y = x \<and> s' = s"
  by (auto simp: ret_def)

lemma unpack_Inr: "unpack v lib s = (Inr p, s') \<longleftrightarrow> unpack2 v = Inr p \<and> s' = s"
  by (auto simp: unpack_def ret_def raise_def split: sum.splits)

lemmas Inr_simps = bnd_Inr call_Inr ret_Inr unpack_Inr Let_def

text \<open>The events a cell adds to the log when it completes.\<close>

lemma cell3_Inr:
  assumes "cell3  lib (w, tr) = (Inr u, w', tr')"
  shows "\<exists>m1 m2 m3 so q3.
        tr' = tr @
       [Ev Import [VStr ''rioxarray''] [] m1,
        Ev Import [VStr ''xarray''] [] m2,
        Ev Import [VStr ''matplotlib.pyplot''] [] m3,
        Ev Xr_set_options [] [(''keep_attrs'', VBool True), (''display_expand_data'', VBool False)] so,
        Ev Display [so] [] q3]"
  using assms unfolding cell3_def by (auto simp: Inr_simps)

lemma cell5_Inr:
  assumes "cell5  lib (w, tr) = (Inr (u, d), w', tr')"
  shows "\<exists>q5.
        u = VStr raster_url \<and>
        tr' = tr @
       [Ev Open_rasterio [VStr raster_url] [] d,
        Ev Display [d] [] q5]"
  using assms unfolding cell5_def by (auto simp: Inr_simps)

lemma cell7_Inr:
  assumes "cell7 d lib (w, tr) = (Inr un, w', tr')"
  shows "\<exists>dm p7 q7.
        tr' = tr @
       [Ev Dims [d] [] dm,
        Ev Print [dm] [] p7,
        Ev Display [p7] [] q7]"
  using assms unfolding cell7_def by (auto simp: Inr_simps)

lemma cell8_Inr:
  assumes "cell8 d lib (w, tr) = (Inr un, w', tr')"
  shows "\<exists>co p8 q8.
        tr' = tr @
       [Ev Coords [d] [] co,
        Ev Print [co] [] p8,
        Ev Display [p8] [] q8]"
  using assms unfolding cell8_def by (auto simp: Inr_simps)

lemma cell9_Inr:
  assumes "cell9 d lib (w, tr) = (Inr un, w', tr')"
  shows "\<exists>atr p9 q9.
        tr' = tr @
       [Ev Attrs [d] [] atr,
        Ev Print [atr] [] p9,
        Ev Display [p9] [] q9]"
  using assms unfolding cell9_def by (auto simp: Inr_simps)

lemma cell11_Inr:
  assumes "cell11 d lib (w, tr) = (Inr un, w', tr')"
  shows "\<exists>cr p11 q11.
        tr' = tr @
       [Ev Rio_crs [d] [] cr,
        Ev Print [cr] [] p11,
        Ev Display [p11] [] q11]"
  using assms unfolding cell11_def by (auto simp: Inr_simps)

lemma cell12_Inr:
  assumes "cell12 d lib (w, tr) = (Inr un, w', tr')"
  shows "\<exists>tf p12 q12.
        tr' = tr @
       [Ev Rio_transform [d] [] tf,
        Ev Print [tf] [] p12,
        Ev Display [p12] [] q12]"
  using assms unfolding cell12_def by (auto simp: Inr_simps)

lemma cell14_Inr:
  assumes "cell14 d lib (w, tr) = (Inr dr, w', tr')"
  shows "\<exists>cr2 p14 q14.
        tr' = tr @
       [Ev Rio_reproject [d, VStr ''EPSG:4326''] [] dr,
        Ev Rio_crs [dr] [] cr2,
        Ev Print [cr2] [] p14,
        Ev Display [p14] [] q14]"
  using assms unfolding cell14_def by (auto simp: Inr_simps)

lemma cell16_Inr:
  assumes "cell16 dr lib (w, tr) = (Inr (bb, cd), w', tr')"
  shows "bb = VList bbox \<and>
        tr' = tr @
       [Ev Rio_clip_box (dr # bbox) [] cd]"
  using assms unfolding cell16_def by (auto simp: Inr_simps)

lemma cell17_Inr:
  assumes "cell17 cd lib (w, tr) = (Inr un, w', tr')"
  shows "\<exists>sh17 q17.
        tr' = tr @
       [Ev Shape [cd] [] sh17,
        Ev Display [sh17] [] q17]"
  using assms unfolding cell17_def by (auto simp: Inr_simps)

lemma cell19_Inr:
  assumes "cell19 d lib (w, tr) = (Inr (gp, bo, cd2), w', tr')"
  shows "\<exists>m4 g c.
        gp = VStr geojson_url \<and>
        tr' = tr @
       [Ev Import [VStr ''geopandas''] [] m4,
        Ev Gpd_read_file [VStr geojson_url] [] bo,
        Ev Geometry [bo] [] g,
        Ev Crs [bo] [] c,
        Ev Rio_clip [d, g, c] [] cd2]"
  using assms unfolding cell19_def by (auto simp: Inr_simps)

lemma cell20_Inr:
  assumes "cell20 cd2 lib (w, tr) = (Inr un, w', tr')"
  shows "\<exists>sh20 q20.
        tr' = tr @
       [Ev Shape [cd2] [] sh20,
        Ev Display [sh20] [] q20]"
  using assms unfolding cell20_def by (auto simp: Inr_simps)

lemma cell22_Inr:
  assumes "cell22 d lib (w, tr) = (Inr rd, w', tr')"
  shows "\<exists>cr3.
        tr' = tr @
       [Ev Rio_crs [d] [] cr3,
        Ev Rio_reproject [d, cr3] [(''resolution'', VTuple [VInt 1000, VInt 1000])] rd]"
  using assms unfolding cell22_def by (auto simp: Inr_simps)

lemma cell23_Inr:
  assumes "cell23 rd lib (w, tr) = (Inr un, w', tr')"
  shows "\<exists>sh23 q23.
        tr' = tr @
       [Ev Shape [rd] [] sh23,
        Ev Display [sh23] [] q23]"
  using assms unfolding cell23_def by (auto simp: Inr_simps)

lemma cell25_Inr:
  assumes "cell25 dr lib (w, tr) = (Inr (mnx, mxx, mny, mxy, sb), w', tr')"
  shows "\<exists>sh25 q25.
        mnx = VFloat (- 115.391) \<and>
        mxx = VFloat (- 114.988) \<and>
        mny = VFloat 35.982 \<and>
        mxy = VFloat 36.425 \<and>
        tr' = tr @
       [Ev Sel [dr] [(''x'', VSlice (VFloat (- 115.391)) (VFloat (- 114.988))), (''y'', VSlice (VFloat 36.425) (VFloat 35.982))] sb,
        Ev Shape [sb] [] sh25,
        Ev Display [sh25] [] q25]"
  using assms unfolding cell25_def by (auto simp: Inr_simps)

lemma cell27_Inr:
  assumes "cell27 dr lib (w, tr) = (Inr un, w', tr')"
  shows "\<exists>f27 b27 i27 t27 x27 y27 s27 q27.
        tr' = tr @
       [Ev Plt_figure [] [(''figsize'', VTuple [VInt 8, VInt 8])] f27,
        Ev Sel [dr] [(''band'', VList [VInt 4, VInt 3, VInt 2])] b27,
        Ev Plot_imshow [b27] [(''vmin'', VInt 0), (''vmax'', VFloat 0.3)] i27,
        Ev Plt_title [VStr ''Landsat Image covering Las Vegas''] [] t27,
        Ev Plt_xlabel [VStr ''Longitude''] [] x27,
        Ev Plt_ylabel [VStr ''Latitude''] [] y27,
        Ev Plt_show [] [] s27,
        Ev Display [s27] [] q27]"
  using assms unfolding cell27_def plot_rgb_def by (auto simp: Inr_simps)

lemma cell29_Inr:
  assumes "cell29 cd lib (w, tr) = (Inr un, w', tr')"
  shows "\<exists>f29 b29 i29 t29 x29 y29 s29 q29.
        tr' = tr @
       [Ev Plt_figure [] [(''figsize'', VTuple [VInt 8, VInt 8])] f29,
        Ev Sel [cd] [(''band'', VList [VInt 4, VInt 3, VInt 2])] b29,
        Ev Plot_imshow [b29] [(''vmin'', VInt 0), (''vmax'', VFloat 0.3)] i29,
        Ev Plt_title [VStr ''Landsat Image covering Las Vegas''] [] t29,
        Ev Plt_xlabel [VStr ''Longitude''] [] x29,
        Ev Plt_ylabel [VStr ''Latitude''] [] y29,
        Ev Plt_show [] [] s29,
        Ev Display [s29] [] q29]"
  using assms unfolding cell29_def plot_rgb_def by (auto simp: Inr_simps)

lemma cell31_Inr:
  assumes "cell31 d bo lib (w, tr) = (Inr (fg, axs), w', tr')"
  shows "\<exists>fa b31 i31 bd gp31 t31 s31 q31.
        unpack2 fa = Inr (fg, axs) \<and>
        tr' = tr @
       [Ev Plt_subplots [] [(''figsize'', VTuple [VInt 8, VInt 8])] fa,
        Ev Sel [d] [(''band'', VInt 4)] b31,
        Ev Plot_imshow [b31] [(''ax'', axs), (''vmin'', VInt 0), (''vmax'', VFloat 0.4), (''cmap'', VStr ''gray'')] i31,
        Ev Boundary [bo] [] bd,
        Ev Geo_plot [bd] [(''ax'', axs), (''color'', VStr ''red'')] gp31,
        Ev Plt_title [VStr ''Raster with Vector Overlay''] [] t31,
        Ev Plt_show [] [] s31,
        Ev Display [s31] [] q31]"
  using assms unfolding cell31_def by (auto simp: Inr_simps)

lemma cell33_Inr:
  assumes "cell33 d lib (w, tr) = (Inr un, w', tr')"
  shows "\<exists>r33 q33.
        tr' = tr @
       [Ev Rio_to_raster [d, VStr ''output_raster.tif''] [] r33,
        Ev Display [r33] [] q33]"
  using assms unfolding cell33_def by (auto simp: Inr_simps)

lemmas cell_Inr =
  cell3_Inr cell5_Inr cell7_Inr cell8_Inr cell9_Inr cell11_Inr cell12_Inr cell14_Inr
  cell16_Inr cell17_Inr cell19_Inr cell20_Inr cell22_Inr cell23_Inr cell25_Inr
  cell27_Inr cell29_Inr cell31_Inr cell33_Inr

text \<open>
  The log of a complete run, cell by cell: every argument is a literal of the notebook,
  one of its variables, or the answer to an earlier call.
\<close>

lemma run_Inr_trace:
  assumes "run lib w = (Inr env, w', tr)"
  shows "\<exists>m1 m2 m3 so q3 q5 dm p7 q7 co p8 q8
       atr p9 q9 cr p11 q11 tf p12 q12 cr2 p14 q14
       sh17 q17 m4 g c sh20 q20 cr3 sh23 q23 sh25 q25
       f27 b27 i27 t27 x27 y27 s27 q27 f29 b29 i29 t29
       x29 y29 s29 q29 fa b31 i31 bd gp31 t31 s31 q31
       r33 q33.
     url env = VStr raster_url \<and>
     bbox_var env = VList bbox \<and>
     geojson_path env = VStr geojson_url \<and>
     min_x env = VFloat (- 115.391) \<and>
     max_x env = VFloat (- 114.988) \<and>
     min_y env = VFloat 35.982 \<and>
     max_y env = VFloat 36.425 \<and>
     unpack2 fa = Inr (fig env, ax env) \<and>
     tr =
     [Ev Import [VStr ''rioxarray''] [] m1,
      Ev Import [VStr ''xarray''] [] m2,
      Ev Import [VStr ''matplotlib.pyplot''] [] m3,
      Ev Xr_set_options [] [(''keep_attrs'', VBool True), (''display_expand_data'', VBool False)] so,
      Ev Display [so] [] q3] @
     [Ev Open_rasterio [VStr raster_url] [] (data env),
      Ev Display [(data env)] [] q5] @
     [Ev Dims [(data env)] [] dm,
      Ev Print [dm] [] p7,
      Ev Display [p7] [] q7] @
     [Ev Coords [(data env)] [] co,
      Ev Print [co] [] p8,
      Ev Display [p8] [] q8] @
     [Ev Attrs [(data env)] [] atr,
      Ev Print [atr] [] p9,
      Ev Display [p9] [] q9] @
     [Ev Rio_crs [(data env)] [] cr,
      Ev Print [cr] [] p11,
      Ev Display [p11] [] q11] @
     [Ev Rio_transform [(data env)] [] tf,
      Ev Print [tf] [] p12,
      Ev Display [p12] [] q12] @
     [Ev Rio_reproject [(data env), VStr ''EPSG:4326''] [] (data_reprojected env),
      Ev Rio_crs [(data_reprojected env)] [] cr2,
      Ev Print [cr2] [] p14,
      Ev Display [p14] [] q14] @
     [Ev Rio_clip_box ((data_reprojected env) # bbox) [] (clipped_data env)] @
     [Ev Shape [(clipped_data env)] [] sh17,
      Ev Display [sh17] [] q17] @
     [Ev Import [VStr ''geopandas''] [] m4,
      Ev Gpd_read_file [VStr geojson_url] [] (bounds env),
      Ev Geometry [(bounds env)] [] g,
      Ev Crs [(bounds env)] [] c,
      Ev Rio_clip [(data env), g, c] [] (clipped_data2 env)] @
     [Ev Shape [(clipped_data2 env)] [] sh20,
      Ev Display [sh20] [] q20] @
     [Ev Rio_crs [(data env)] [] cr3,
      Ev Rio_reproject [(data env), cr3] [(''resolution'', VTuple [VInt 1000, VInt 1000])] (resampled_data env)] @
     [Ev Shape [(resampled_data env)] [] sh23,
      Ev Display [sh23] [] q23] @
     [Ev Sel [(data_reprojected env)] [(''x'', VSlice (VFloat (- 115.391)) (VFloat (- 114.988))), (''y'', VSlice (VFloat 36.425) (VFloat 35.982))] (subset env),
      Ev Shape [(subset env)] [] sh25,
      Ev Display [sh25] [] q25] @
     [Ev Plt_figure [] [(''figsize'', VTuple [VInt 8, VInt 8])] f27,
      Ev Sel [(data_reprojected env)] [(''band'', VList [VInt 4, VInt 3, VInt 2])] b27,
      Ev Plot_imshow [b27] [(''vmin'', VInt 0), (''vmax'', VFloat 0.3)] i27,
      Ev Plt_title [VStr ''Landsat Image covering Las Vegas''] [] t27,
      Ev Plt_xlabel [VStr ''Longitude''] [] x27,
      Ev Plt_ylabel [VStr ''Latitude''] [] y27,
      Ev Plt_show [] [] s27,
      Ev Display [s27] [] q27] @
     [Ev Plt_figure [] [(''figsize'', VTuple [VInt 8, VInt 8])] f29,
      Ev Sel [(clipped_data env)] [(''band'', VList [VInt 4, VInt 3, VInt 2])] b29,
      Ev Plot_imshow [b29] [(''vmin'', VInt 0), (''vmax'', VFloat 0.3)] i29,
      Ev Plt_title [VStr ''Landsat Image covering Las Vegas''] [] t29,
      Ev Plt_xlabel [VStr ''Longitude''] [] x29,
      Ev Plt_ylabel [VStr ''Latitude''] [] y29,
      Ev Plt_show [] [] s29,
      Ev Display [s29] [] q29] @
     [Ev Plt_subplots [] [(''figsize'', VTuple [VInt 8, VInt 8])] fa,
      Ev Sel [(data env)] [(''band'', VInt 4)] b31,
      Ev Plot_imshow [b31] [(''ax'', (ax env)), (''vmin'', VInt 0), (''vmax'', VFloat 0.4), (''cmap'', VStr ''gray'')] i31,
      Ev Boundary [(bounds env)] [] bd,
      Ev Geo_plot [bd] [(''ax'', (ax env)), (''color'', VStr ''red'')] gp31,
      Ev Plt_title [VStr ''Raster with Vector Overlay''] [] t31,
      Ev Plt_show [] [] s31,
      Ev Display [s31] [] q31] @
     [Ev Rio_to_raster [(data env), VStr ''output_raster.tif''] [] r33,
      Ev Display [r33] [] q33]"
  using assms unfolding run_def notebook_def
  apply (simp add: bnd_Inr ret_Inr)
  apply (elim exE conjE)
  apply (drule cell_Inr)+
  apply (elim exE conjE)
  apply simp
  done

text \<open>A property that every call of a piece of code has is kept by the code.\<close>

lemma keeps_ret: "keeps P (ret x)"
  by (simp add: keeps_def ret_def)

lemma keeps_unpack: "keeps P (unpack v)"
  by (simp add: keeps_def unpack_def ret_def raise_def split: sum.splits)

lemma keeps_call:
  assumes "\<And>(lib :: ('o, 'w) library) w.
     P lib \<lparr>ev_fn = f, ev_args = a, ev_kwargs = kw, ev_resp = fst (lib f a kw w)\<rparr>"
  shows "keeps P (call f a kw)"
  unfolding keeps_def
proof (intro allI impI)
  fix lib :: "('o, 'w) library" and w :: 'w and tr :: "'o event list"
  assume g: "list_all (P lib) tr"
  obtain r w1 where l: "lib f a kw w = (r, w1)" by (cases "lib f a kw w") auto
  with assms[of lib w] have "P lib \<lparr>ev_fn = f, ev_args = a, ev_kwargs = kw, ev_resp = r\<rparr>"
    by simp
  with g l show "list_all (P lib) (snd (snd (call f a kw lib (w, tr))))"
    by (simp add: call_def)
qed

lemma keeps_bnd:
  assumes "keeps P (m :: ('o, 'w, 'a) nb)" and "\<And>x. keeps P (k x :: ('o, 'w, 'b) nb)"
  shows "keeps P (bnd m k)"
  unfolding keeps_def
proof (intro allI impI)
  fix lib :: "('o, 'w) library" and w :: 'w and tr :: "'o event list"
  assume g: "list_all (P lib) tr"
  obtain r1 w1 tr1 where r1: "m lib (w, tr) = (r1, w1, tr1)"
    by (cases "m lib (w, tr)") auto
  with assms(1) g have g1: "list_all (P lib) tr1"
    unfolding keeps_def by (metis snd_conv)
  show "list_all (P lib) (snd (snd (bnd m k lib (w, tr))))"
  proof (cases r1)
    case (Inl e)
    with r1 g1 show ?thesis by (simp add: bnd_def)
  next
    case (Inr x)
    with r1 have "bnd m k lib (w, tr) = k x lib (w1, tr1)" by (simp add: bnd_def)
    with assms(2)[of x] g1 show ?thesis unfolding keeps_def by simp
  qed
qed

lemma keeps_case_prod:
  assumes "\<And>a b. keeps P (f a b)"
  shows "keeps P (case p of (a, b) \<Rightarrow> f a b)"
  using assms by (cases p) simp

lemmas keeps_steps =
  keeps_bnd keeps_call keeps_unpack keeps_case_prod keeps_ret

lemma run_keeps:
  assumes "keeps P notebook" and "run lib w = (r, w', tr)"
  shows "list_all (P lib) tr"
proof -
  have "list_all (P lib) [] \<longrightarrow> list_all (P lib) (snd (snd (notebook lib (w, []))))"
    using assms(1)[unfolded keeps_def, THEN spec, THEN spec, THEN spec] .
  with assms(2) show ?thesis by (simp add: run_def)
qed

text \<open>Every event of a log is an answer the library gave to that call in some world.\<close>

lemma genuine_call:
  "genuine lib \<lparr>ev_fn = f, ev_args = a, ev_kwargs = kw, ev_resp = fst (lib f a kw w)\<rparr>"
  unfolding genuine_def by (rule exI[of _ w], rule exI[of _ "snd (lib f a kw w)"]) simp

lemma genuine_notebook: "keeps genuine notebook"
  unfolding notebook_def cell_defs Let_def by (intro keeps_steps genuine_call)

lemma run_genuine:
  assumes "run lib w = (r, w', tr)" and "ev \<in> set tr"
  shows "genuine lib ev"
  using run_keeps[OF genuine_notebook assms(1)] assms(2) by (simp add: list_all_iff)

text \<open>Every call of the notebook is in memory or has one of the six kinds of effect.\<close>

lemma within_six_notebook: "keeps (\<lambda>lib. within_six) notebook"
  unfolding notebook_def cell_defs Let_def
  by (intro keeps_steps)
     (simp_all add: within_six_def effect_of_def six_kinds_def four_kinds_def
        is_url_def raster_url_def geojson_url_def)

lemma fresh_run: "fst (run lib_fresh 0) = Inr env_fresh"
  by (simp add: exec_defs lib_fresh_def env_fresh_def)

lemma fresh_run_eq:
  "run lib_fresh 0 =
     (Inr env_fresh, fst (snd (run lib_fresh 0)), snd (snd (run lib_fresh 0)))"
  using fresh_run by (metis prod.collapse)

section \<open>Delegation\<close>

text \<open>
  C4. In a complete run each geospatial operation is one library call, applied to the
  notebook's variables and literals, and the variable the notebook assigns is the very
  answer of that call. Loading is \<open>open_rasterio\<close> on the URL; reprojecting is
  \<open>rio.reproject\<close> on \<open>data\<close> and \<open>"EPSG:4326"\<close>; clipping is \<open>rio.clip_box\<close> on
  \<open>data_reprojected\<close> and the four numbers of \<open>bbox\<close>, and \<open>rio.clip\<close> on
  \<open>data\<close> with \<open>bounds.geometry\<close> and \<open>bounds.crs\<close> as read from the library;
  resampling is \<open>rio.reproject\<close> on \<open>data\<close>, the value read from \<open>data.rio.crs\<close> and
  \<open>resolution=(1000, 1000)\<close>; exporting is \<open>rio.to_raster\<close> on \<open>data\<close> and the file
  name. The log holds one load, two reprojections, one call of each clip and one export.
\<close>

theorem operations_are_single_calls:
  assumes "run lib w = (Inr env, w', tr)"
  shows
    "url env = VStr raster_url \<and>
     Ev Open_rasterio [url env] [] (data env) \<in> set tr \<and>
     Ev Rio_reproject [data env, VStr ''EPSG:4326''] [] (data_reprojected env) \<in> set tr \<and>
     bbox_var env = VList bbox \<and>
     Ev Rio_clip_box (data_reprojected env # bbox) [] (clipped_data env) \<in> set tr \<and>
     (\<exists>g c. Ev Geometry [bounds env] [] g \<in> set tr \<and>
            Ev Crs [bounds env] [] c \<in> set tr \<and>
            Ev Rio_clip [data env, g, c] [] (clipped_data2 env) \<in> set tr) \<and>
     (\<exists>c. Ev Rio_crs [data env] [] c \<in> set tr \<and>
          Ev Rio_reproject [data env, c] [(''resolution'', VTuple [VInt 1000, VInt 1000])]
            (resampled_data env) \<in> set tr) \<and>
     (\<exists>r. Ev Rio_to_raster [data env, VStr ''output_raster.tif''] [] r \<in> set tr) \<and>
     count_list (map ev_fn tr) Open_rasterio = 1 \<and>
     count_list (map ev_fn tr) Rio_reproject = 2 \<and>
     count_list (map ev_fn tr) Rio_clip_box = 1 \<and>
     count_list (map ev_fn tr) Rio_clip = 1 \<and>
     count_list (map ev_fn tr) Rio_to_raster = 1"
proof -
  have calls: "map ev_fn tr = notebook_calls"
    by (rule run_calls_complete(1)[OF assms])
  have counts: "count_list notebook_calls Open_rasterio = 1"
    "count_list notebook_calls Rio_reproject = 2"
    "count_list notebook_calls Rio_clip_box = 1"
    "count_list notebook_calls Rio_clip = 1"
    "count_list notebook_calls Rio_to_raster = 1"
    by (simp_all add: notebook_calls_def)
  from run_Inr_trace[OF assms] have
    "url env = VStr raster_url \<and>
     Ev Open_rasterio [url env] [] (data env) \<in> set tr \<and>
     Ev Rio_reproject [data env, VStr ''EPSG:4326''] [] (data_reprojected env) \<in> set tr \<and>
     bbox_var env = VList bbox \<and>
     Ev Rio_clip_box (data_reprojected env # bbox) [] (clipped_data env) \<in> set tr \<and>
     (\<exists>g c. Ev Geometry [bounds env] [] g \<in> set tr \<and>
            Ev Crs [bounds env] [] c \<in> set tr \<and>
            Ev Rio_clip [data env, g, c] [] (clipped_data2 env) \<in> set tr) \<and>
     (\<exists>c. Ev Rio_crs [data env] [] c \<in> set tr \<and>
          Ev Rio_reproject [data env, c] [(''resolution'', VTuple [VInt 1000, VInt 1000])]
            (resampled_data env) \<in> set tr) \<and>
     (\<exists>r. Ev Rio_to_raster [data env, VStr ''output_raster.tif''] [] r \<in> set tr)"
    by (elim exE conjE) auto
  with calls counts show ?thesis by auto
qed

text \<open>The run against \<open>lib_fresh\<close> completes, so the theorem applies to it.\<close>

theorem operations_are_single_calls_witness:
  "fst (run lib_fresh 0) = Inr env_fresh \<and>
   Ev Open_rasterio [VStr raster_url] [] (VObj 1) \<in> set (snd (snd (run lib_fresh 0))) \<and>
   Ev Rio_reproject [VObj 1, VStr ''EPSG:4326''] [] (VObj 7) \<in> set (snd (snd (run lib_fresh 0))) \<and>
   Ev Rio_clip_box (VObj 7 # bbox) [] (VObj 9) \<in> set (snd (snd (run lib_fresh 0))) \<and>
   count_list (map ev_fn (snd (snd (run lib_fresh 0)))) Rio_reproject = 2"
  using operations_are_single_calls[OF fresh_run_eq] fresh_run
  by (simp add: env_fresh_def)

section \<open>The seven operations\<close>

text \<open>
  C6. A complete run performs each taught operation on the raster: it loads \<open>data\<close>;
  reads its dimensions, coordinates, attributes, CRS and affine transform and prints each
  value read; reprojects \<open>data\<close>; clips \<open>data_reprojected\<close> by the bounding box and
  \<open>data\<close> by the geometry; resamples \<open>data\<close>; plots the bands 4, 3, 2 of
  \<open>data_reprojected\<close> and shows the figure; and exports \<open>data\<close>.
\<close>

theorem seven_operations_performed:
  assumes "run lib w = (Inr env, w', tr)"
  shows
    "Ev Open_rasterio [VStr raster_url] [] (data env) \<in> set tr \<and>
     (\<exists>dm co atr cr tf.
        Ev Dims [data env] [] dm \<in> set tr \<and> (\<exists>p. Ev Print [dm] [] p \<in> set tr) \<and>
        Ev Coords [data env] [] co \<in> set tr \<and> (\<exists>p. Ev Print [co] [] p \<in> set tr) \<and>
        Ev Attrs [data env] [] atr \<in> set tr \<and> (\<exists>p. Ev Print [atr] [] p \<in> set tr) \<and>
        Ev Rio_crs [data env] [] cr \<in> set tr \<and> (\<exists>p. Ev Print [cr] [] p \<in> set tr) \<and>
        Ev Rio_transform [data env] [] tf \<in> set tr \<and> (\<exists>p. Ev Print [tf] [] p \<in> set tr)) \<and>
     Ev Rio_reproject [data env, VStr ''EPSG:4326''] [] (data_reprojected env) \<in> set tr \<and>
     Ev Rio_clip_box (data_reprojected env # bbox) [] (clipped_data env) \<in> set tr \<and>
     (\<exists>g c. Ev Rio_clip [data env, g, c] [] (clipped_data2 env) \<in> set tr) \<and>
     (\<exists>c. Ev Rio_reproject [data env, c] [(''resolution'', VTuple [VInt 1000, VInt 1000])]
            (resampled_data env) \<in> set tr) \<and>
     (\<exists>b i s.
        Ev Sel [data_reprojected env] [(''band'', VList [VInt 4, VInt 3, VInt 2])] b \<in> set tr \<and>
        Ev Plot_imshow [b] [(''vmin'', VInt 0), (''vmax'', VFloat 0.3)] i \<in> set tr \<and>
        Ev Plt_show [] [] s \<in> set tr) \<and>
     (\<exists>r. Ev Rio_to_raster [data env, VStr ''output_raster.tif''] [] r \<in> set tr)"
  using run_Inr_trace[OF assms] by (elim exE conjE) auto

theorem seven_operations_performed_witness:
  "fst (run lib_fresh 0) = Inr env_fresh \<and>
   Ev Open_rasterio [VStr raster_url] [] (VObj 1) \<in> set (snd (snd (run lib_fresh 0))) \<and>
   Ev Rio_clip_box (VObj 7 # bbox) [] (VObj 9) \<in> set (snd (snd (run lib_fresh 0)))"
  using seven_operations_performed[OF fresh_run_eq] fresh_run
  by (simp add: env_fresh_def)

section \<open>Effects on the outside world\<close>

text \<open>
  C3, as the specification states it: every call of a run that is not in memory has one
  of the four kinds of effect listed. It fails on every run that reaches cell 7:
  \<open>print(data.dims)\<close> writes text to the notebook's output, which is none of the four.
  Event 8 of the run against \<open>lib_fresh\<close> is that call.
\<close>

theorem only_four_kinds_counterexample:
  "ev_fn (snd (snd (run lib_fresh 0)) ! 8) = Print \<and>
   effect_of (snd (snd (run lib_fresh 0)) ! 8) = Show_value \<and>
   \<not> only_four_kinds (snd (snd (run lib_fresh 0)))"
  by (simp add: exec_defs lib_fresh_def only_four_kinds_def four_kinds_def effect_of_def)

text \<open>
  C3, amended. What the calls of the notebook ask of the outside world is of exactly six
  kinds: the four of the specification, the showing of values as text (the \<open>print\<close>
  calls, and the display of the value of a cell), and the import of the libraries. In
  every run, complete or cut short, each call has one of the six kinds or is in memory:
  no call reads a local file, writes to a URL or is handed a file that is not named. A
  complete run has all six: four imports; one raster read, from the \<open>https\<close> URL of
  cell 5; one vector read, from the \<open>https\<close> URL of cell 19; one raster written, under
  a local file name; seventeen plotting calls; twenty-two values shown; the twenty-three other
  calls are in memory.
\<close>

theorem external_effects:
  assumes "run lib w = (r, w', tr)"
  shows
    "list_all (\<lambda>ev. effect_of ev = In_memory \<or> effect_of ev \<in> set six_kinds) tr \<and>
     (\<forall>env. r = Inr env \<longrightarrow>
        set (map effect_of tr) = set six_kinds \<union> {In_memory} \<and>
        Ev Open_rasterio [VStr raster_url] [] (data env) \<in> set tr \<and> is_url raster_url \<and>
        Ev Gpd_read_file [VStr geojson_url] [] (bounds env) \<in> set tr \<and> is_url geojson_url \<and>
        (\<exists>v. Ev Rio_to_raster [data env, VStr ''output_raster.tif''] [] v \<in> set tr) \<and>
        \<not> is_url ''output_raster.tif'' \<and>
        count_list (map effect_of tr) Load_library = 4 \<and>
        count_list (map effect_of tr) Read_remote_raster = 1 \<and>
        count_list (map effect_of tr) Read_remote_vector = 1 \<and>
        count_list (map effect_of tr) Write_local_raster = 1 \<and>
        count_list (map effect_of tr) Render_plot = 17 \<and>
        count_list (map effect_of tr) Show_value = 22 \<and>
        count_list (map effect_of tr) In_memory = 23)"
proof (rule conjI)
  show "list_all (\<lambda>ev. effect_of ev = In_memory \<or> effect_of ev \<in> set six_kinds) tr"
    using run_keeps[OF within_six_notebook assms]
    by (simp add: list_all_iff within_six_def)
next
  show "\<forall>env. r = Inr env \<longrightarrow>
        set (map effect_of tr) = set six_kinds \<union> {In_memory} \<and>
        Ev Open_rasterio [VStr raster_url] [] (data env) \<in> set tr \<and> is_url raster_url \<and>
        Ev Gpd_read_file [VStr geojson_url] [] (bounds env) \<in> set tr \<and> is_url geojson_url \<and>
        (\<exists>v. Ev Rio_to_raster [data env, VStr ''output_raster.tif''] [] v \<in> set tr) \<and>
        \<not> is_url ''output_raster.tif'' \<and>
        count_list (map effect_of tr) Load_library = 4 \<and>
        count_list (map effect_of tr) Read_remote_raster = 1 \<and>
        count_list (map effect_of tr) Read_remote_vector = 1 \<and>
        count_list (map effect_of tr) Write_local_raster = 1 \<and>
        count_list (map effect_of tr) Render_plot = 17 \<and>
        count_list (map effect_of tr) Show_value = 22 \<and>
        count_list (map effect_of tr) In_memory = 23"
  proof (intro allI impI)
    fix env
    assume "r = Inr env"
    with assms have ok_run: "run lib w = (Inr env, w', tr)" by simp
    have urls: "is_url raster_url" "is_url geojson_url" "\<not> is_url ''output_raster.tif''"
      by (simp_all add: is_url_def raster_url_def geojson_url_def)
    from run_Inr_trace[OF ok_run] have effs:
      "map effect_of tr =
         [Load_library, Load_library, Load_library, In_memory, Show_value] @
         [Read_remote_raster, Show_value] @
         [In_memory, Show_value, Show_value] @
         [In_memory, Show_value, Show_value] @
         [In_memory, Show_value, Show_value] @
         [In_memory, Show_value, Show_value] @
         [In_memory, Show_value, Show_value] @
         [In_memory, In_memory, Show_value, Show_value] @
         [In_memory] @
         [In_memory, Show_value] @
         [Load_library, Read_remote_vector, In_memory, In_memory, In_memory] @
         [In_memory, Show_value] @
         [In_memory, In_memory] @
         [In_memory, Show_value] @
         [In_memory, In_memory, Show_value] @
         [Render_plot, In_memory, Render_plot, Render_plot, Render_plot, Render_plot,
          Render_plot, Show_value] @
         [Render_plot, In_memory, Render_plot, Render_plot, Render_plot, Render_plot,
          Render_plot, Show_value] @
         [Render_plot, In_memory, Render_plot, In_memory, Render_plot, Render_plot,
          Render_plot, Show_value] @
         [Write_local_raster, Show_value]"
      using urls by (elim exE conjE) (simp add: effect_of_def)
    from run_Inr_trace[OF ok_run] have evs:
      "Ev Open_rasterio [VStr raster_url] [] (data env) \<in> set tr \<and>
       Ev Gpd_read_file [VStr geojson_url] [] (bounds env) \<in> set tr \<and>
       (\<exists>v. Ev Rio_to_raster [data env, VStr ''output_raster.tif''] [] v \<in> set tr)"
      by (elim exE conjE) auto
    have kinds: "set (map effect_of tr) = set six_kinds \<union> {In_memory}"
      unfolding effs by (auto simp: six_kinds_def four_kinds_def)
    have counts:
      "count_list (map effect_of tr) Load_library = 4"
      "count_list (map effect_of tr) Read_remote_raster = 1"
      "count_list (map effect_of tr) Read_remote_vector = 1"
      "count_list (map effect_of tr) Write_local_raster = 1"
      "count_list (map effect_of tr) Render_plot = 17"
      "count_list (map effect_of tr) Show_value = 22"
      "count_list (map effect_of tr) In_memory = 23"
      unfolding effs by simp_all
    from kinds counts evs urls
    show "set (map effect_of tr) = set six_kinds \<union> {In_memory} \<and>
        Ev Open_rasterio [VStr raster_url] [] (data env) \<in> set tr \<and> is_url raster_url \<and>
        Ev Gpd_read_file [VStr geojson_url] [] (bounds env) \<in> set tr \<and> is_url geojson_url \<and>
        (\<exists>v. Ev Rio_to_raster [data env, VStr ''output_raster.tif''] [] v \<in> set tr) \<and>
        \<not> is_url ''output_raster.tif'' \<and>
        count_list (map effect_of tr) Load_library = 4 \<and>
        count_list (map effect_of tr) Read_remote_raster = 1 \<and>
        count_list (map effect_of tr) Read_remote_vector = 1 \<and>
        count_list (map effect_of tr) Write_local_raster = 1 \<and>
        count_list (map effect_of tr) Render_plot = 17 \<and>
        count_list (map effect_of tr) Show_value = 22 \<and>
        count_list (map effect_of tr) In_memory = 23"
      by blast
  qed
qed

text \<open>
  The classification can fail: a raster read from a local path, a raster written to a
  URL, and a vector read from a file object are not within the six kinds.
\<close>

lemma within_six_refutable:
  "\<not> within_six (Ev Open_rasterio [VStr ''scene.tif''] [] (VObj (0::nat))) \<and>
   \<not> within_six
       (Ev Rio_to_raster [VObj 0, VStr ''https://example.org/out.tif''] [] (VNone :: nat val)) \<and>
   \<not> within_six (Ev Gpd_read_file [VObj (0::nat)] [] (VObj 1))"
  by (simp add: within_six_def effect_of_def six_kinds_def four_kinds_def is_url_def)

theorem external_effects_witness:
  "fst (run lib_fresh 0) = Inr env_fresh \<and>
   list_all (\<lambda>ev. effect_of ev = In_memory \<or> effect_of ev \<in> set six_kinds)
     (snd (snd (run lib_fresh 0))) \<and>
   set (map effect_of (snd (snd (run lib_fresh 0)))) = set six_kinds \<union> {In_memory} \<and>
   Ev Gpd_read_file [VStr geojson_url] [] (VObj 11) \<in> set (snd (snd (run lib_fresh 0))) \<and>
   count_list (map effect_of (snd (snd (run lib_fresh 0)))) Show_value = 22"
proof -
  note t = external_effects[OF fresh_run_eq]
  from t[THEN conjunct2, rule_format, of env_fresh]
  have "set (map effect_of (snd (snd (run lib_fresh 0)))) = set six_kinds \<union> {In_memory} \<and>
     Ev Gpd_read_file [VStr geojson_url] [] (bounds env_fresh) \<in> set (snd (snd (run lib_fresh 0))) \<and>
     count_list (map effect_of (snd (snd (run lib_fresh 0)))) Show_value = 22"
    by simp
  with t[THEN conjunct1] fresh_run show ?thesis
    by (simp add: env_fresh_def)
qed

section \<open>Order of the operations\<close>

lemma sorted_map_filter_nth:
  assumes "sorted (map g (List.map_filter f xs))" and "i < j" and "j < length xs"
    and "f (xs ! i) = Some p" and "f (xs ! j) = Some q"
  shows "(g p :: nat) \<le> g q"
  using assms
proof (induction xs arbitrary: i j)
  case Nil
  then show ?case by simp
next
  case (Cons x xs)
  from Cons.prems(2) obtain j' where j: "j = Suc j'" by (cases j) auto
  with Cons.prems have j': "j' < length xs" and fq: "f (xs ! j') = Some q" by simp_all
  have tail: "sorted (map g (List.map_filter f xs))"
    using Cons.prems(1) by (cases "f x") simp_all
  show ?case
  proof (cases i)
    case 0
    with Cons.prems have fx: "f x = Some p" by simp
    from j' fq have "q \<in> set (List.map_filter f xs)"
      by (force simp: List.map_filter_def)
    with Cons.prems(1) fx show ?thesis
      by simp
  next
    case (Suc i')
    with Cons.prems j have "i' < j'" "f (xs ! i') = Some p" by simp_all
    with Cons.IH[OF tail _ j' _ fq] show ?thesis by blast
  qed
qed

lemma notebook_calls_sorted: "sorted (map rank (List.map_filter phase_of notebook_calls))"
  by (simp add: notebook_calls_def)

lemma notebook_calls_phases:
  "List.map_filter phase_of notebook_calls =
     Load # replicate 4 Inspect @ replicate 4 Transform @ replicate 17 Visualize @ [Export]"
  by (simp add: notebook_calls_def eval_nat_numeral)

text \<open>
  C5. In every run, complete or cut short by an exception, the operations come in the
  order of the five steps: of two events that carry a phase, the later one is in the same
  or a later step. So every transform comes after the load, and the export after every
  plotting call. A complete run makes exactly the calls of \<open>notebook_calls\<close>, in that
  order: one load, then four metadata reads, four transforms, seventeen plotting calls and
  the export last.
\<close>

theorem phases_in_order:
  assumes "run lib w = (r, w', tr)"
  shows
    "(\<forall>i j p q. i < j \<and> j < length tr \<and>
        phase_of (ev_fn (tr ! i)) = Some p \<and> phase_of (ev_fn (tr ! j)) = Some q \<longrightarrow>
        rank p \<le> rank q) \<and>
     (\<forall>env. r = Inr env \<longrightarrow>
        map ev_fn tr = notebook_calls \<and>
        List.map_filter phase_of (map ev_fn tr) =
          Load # replicate 4 Inspect @ replicate 4 Transform @ replicate 17 Visualize @ [Export])"
proof (intro conjI allI impI)
  fix i j p q
  assume a: "i < j \<and> j < length tr \<and>
    phase_of (ev_fn (tr ! i)) = Some p \<and> phase_of (ev_fn (tr ! j)) = Some q"
  from run_calls_prefix[OF assms] obtain zs where
    zs: "notebook_calls = map ev_fn tr @ zs" by (auto simp: prefix_def)
  from a have i: "i < length tr" and j: "j < length tr" by simp_all
  have ni: "notebook_calls ! i = ev_fn (tr ! i)"
    using i by (simp add: zs nth_append)
  have nj: "notebook_calls ! j = ev_fn (tr ! j)"
    using j by (simp add: zs nth_append)
  have jl: "j < length notebook_calls"
    using j by (simp add: zs)
  show "rank p \<le> rank q"
    using sorted_map_filter_nth[OF notebook_calls_sorted _ jl, of i p q] a ni nj by simp
next
  fix env
  assume "r = Inr env"
  with assms show "map ev_fn tr = notebook_calls"
    by (simp add: run_calls_complete(1))
next
  fix env
  assume "r = Inr env"
  with assms have "map ev_fn tr = notebook_calls"
    by (simp add: run_calls_complete(1))
  then show "List.map_filter phase_of (map ev_fn tr) =
      Load # replicate 4 Inspect @ replicate 4 Transform @ replicate 17 Visualize @ [Export]"
    by (simp only: notebook_calls_phases)
qed

text \<open>In the run against \<open>lib_fresh\<close>, event 22 is the reprojection and event 67 the
  export.\<close>

theorem phases_in_order_witness:
  "((22::nat) < 67 \<and> 67 < length (snd (snd (run lib_fresh 0))) \<and>
    phase_of (ev_fn (snd (snd (run lib_fresh 0)) ! 22)) = Some Transform \<and>
    phase_of (ev_fn (snd (snd (run lib_fresh 0)) ! 67)) = Some Export) \<and>
   rank Transform \<le> rank Export \<and>
   fst (run lib_fresh 0) = Inr env_fresh \<and>
   map ev_fn (snd (snd (run lib_fresh 0))) = notebook_calls"
proof -
  have h: "(22::nat) < 67 \<and> 67 < length (snd (snd (run lib_fresh 0))) \<and>
    phase_of (ev_fn (snd (snd (run lib_fresh 0)) ! 22)) = Some Transform \<and>
    phase_of (ev_fn (snd (snd (run lib_fresh 0)) ! 67)) = Some Export"
    by (simp add: exec_defs lib_fresh_def)
  note t = phases_in_order[OF fresh_run_eq]
  have "rank Transform \<le> rank Export"
    using t[THEN conjunct1, rule_format, OF h] .
  moreover have "map ev_fn (snd (snd (run lib_fresh 0))) = notebook_calls"
    using t[THEN conjunct2, rule_format, of env_fresh] by simp
  ultimately show ?thesis using h fresh_run by simp
qed

section \<open>Resampling keeps the CRS\<close>

text \<open>
  C8. The resampling cell reads \<open>data.rio.crs\<close> and passes the value read, unchanged, as
  the target CRS of \<open>data.rio.reproject\<close>, with \<open>resolution=(1000, 1000)\<close>; the answer
  is \<open>resampled_data\<close>. Hence, for every library that keeps the CRS contract, the CRS of
  \<open>resampled_data\<close> is the CRS of \<open>data\<close>.
\<close>

theorem resample_keeps_crs:
  assumes "run lib w = (Inr env, w', tr)"
  shows
    "\<exists>c. Ev Rio_crs [data env] [] c \<in> set tr \<and>
         Ev Rio_reproject [data env, c] [(''resolution'', VTuple [VInt 1000, VInt 1000])]
           (resampled_data env) \<in> set tr \<and>
         (\<forall>crs_of. crs_contract lib crs_of \<longrightarrow>
            c = crs_of (data env) \<and> crs_of (resampled_data env) = crs_of (data env))"
proof -
  from run_Inr_trace[OF assms] obtain c where
    e1: "Ev Rio_crs [data env] [] c \<in> set tr" and
    e2: "Ev Rio_reproject [data env, c] [(''resolution'', VTuple [VInt 1000, VInt 1000])]
           (resampled_data env) \<in> set tr"
    by (elim exE conjE) auto
  from run_genuine[OF assms e1] obtain w1 w2 where
    l1: "lib Rio_crs [data env] [] w1 = (Inr c, w2)"
    by (auto simp: genuine_def)
  from run_genuine[OF assms e2] obtain w3 w4 where
    l2: "lib Rio_reproject [data env, c] [(''resolution'', VTuple [VInt 1000, VInt 1000])] w3 =
           (Inr (resampled_data env), w4)"
    by (auto simp: genuine_def)
  have "\<forall>crs_of. crs_contract lib crs_of \<longrightarrow>
      c = crs_of (data env) \<and> crs_of (resampled_data env) = crs_of (data env)"
  proof (intro allI impI)
    fix crs_of
    assume k: "crs_contract lib crs_of"
    from k l1 have c: "c = crs_of (data env)"
      unfolding crs_contract_def by blast
    from l2 c have "lib Rio_reproject [data env, crs_of (data env)]
        [(''resolution'', VTuple [VInt 1000, VInt 1000])] w3 = (Inr (resampled_data env), w4)"
      by simp
    with k have "crs_of (resampled_data env) = crs_of (data env)"
      unfolding crs_contract_def by blast
    with c show "c = crs_of (data env) \<and> crs_of (resampled_data env) = crs_of (data env)"
      by simp
  qed
  with e1 e2 show ?thesis by blast
qed

text \<open>
  \<open>lib_geo\<close> keeps the contract, although the CRS it reads back after a reprojection to
  the name \<open>"EPSG:4326"\<close> is a CRS object and not that string.
\<close>

lemma raster_crs_Some:
  "raster_crs args = Some c \<longleftrightarrow> (\<exists>i rest. args = VObj (Raster i c) # rest)"
  by (induction args rule: raster_crs.induct) auto

lemma lib_geo_contract: "crs_contract lib_geo crs_of_geo"
  unfolding crs_contract_def
proof (intro conjI allI impI)
  fix d w v w'
  assume "lib_geo Rio_crs [d] [] w = (Inr v, w')"
  then show "v = crs_of_geo d"
    by (auto simp: lib_geo_def on_raster_def raster_crs_Some split: option.splits)
next
  fix d d' kw w v w'
  assume a: "lib_geo Rio_reproject [d, crs_of_geo d'] kw w = (Inr v, w')"
  show "crs_of_geo v = crs_of_geo d'"
  proof (cases "\<exists>i c. d' = VObj (Raster i c)")
    case True
    then obtain i c where "d' = VObj (Raster i c)" by blast
    with a show ?thesis
      by (auto simp: lib_geo_def on_raster_def split: option.splits)
  next
    case False
    then have "crs_of_geo d' = VNone"
      by (induction d' rule: crs_of_geo.induct) auto
    with a show ?thesis
      by (auto simp: lib_geo_def on_raster_def split: option.splits)
  qed
qed

lemma lib_geo_reads_back_object:
  "lib_geo Rio_reproject [VObj (Raster 1 ''EPSG:32611''), VStr ''EPSG:4326''] [] 7 =
     (Inr (VObj (Raster 7 ''EPSG:4326'')), 8) \<and>
   lib_geo Rio_crs [VObj (Raster 7 ''EPSG:4326'')] [] 8 = (Inr (VObj (Crs_obj ''EPSG:4326'')), 8)"
  by (simp add: lib_geo_def on_raster_def)

lemma geo_run:
  "\<exists>env. run lib_geo 0 = (Inr env, fst (snd (run lib_geo 0)), snd (snd (run lib_geo 0))) \<and>
     data env = VObj (Raster 1 ''EPSG:32611'') \<and>
     resampled_data env \<noteq> data env"
  by (simp add: exec_defs lib_geo_def on_raster_def on_frame_def)

text \<open>The run against \<open>lib_geo\<close> completes, and its resampled dataset is a new object
  in the CRS of \<open>data\<close>.\<close>

theorem resample_keeps_crs_witness:
  "\<exists>env. fst (run lib_geo 0) = Inr env \<and>
     crs_contract lib_geo crs_of_geo \<and>
     data env = VObj (Raster 1 ''EPSG:32611'') \<and>
     resampled_data env \<noteq> data env \<and>
     crs_of_geo (resampled_data env) = VObj (Crs_obj ''EPSG:32611'')"
proof -
  from geo_run obtain env where
    r: "run lib_geo 0 = (Inr env, fst (snd (run lib_geo 0)), snd (snd (run lib_geo 0)))" and
    d: "data env = VObj (Raster 1 ''EPSG:32611'')" and
    n: "resampled_data env \<noteq> data env" by blast
  from resample_keeps_crs[OF r] lib_geo_contract
  have "crs_of_geo (resampled_data env) = crs_of_geo (data env)" by blast
  with d have "crs_of_geo (resampled_data env) = VObj (Crs_obj ''EPSG:32611'')" by simp
  moreover from r have "fst (run lib_geo 0) = Inr env" by (metis fst_conv)
  ultimately show ?thesis using d n lib_geo_contract by blast
qed

section \<open>The bounds of the spatial subset\<close>

text \<open>
  Cell 25 selects \<open>x\<close> from the smaller to the larger bound and \<open>y\<close> from the larger
  to the smaller one. What the selection returns is decided by \<open>xarray\<close>.
\<close>

lemma subset_slices:
  assumes "run lib w = (Inr env, w', tr)"
  shows
    "Ev Sel [data_reprojected env]
       [(''x'', VSlice (min_x env) (max_x env)), (''y'', VSlice (max_y env) (min_y env))]
       (subset env) \<in> set tr \<and>
     min_x env = VFloat (- 115.391) \<and> max_x env = VFloat (- 114.988) \<and>
     min_y env = VFloat 35.982 \<and> max_y env = VFloat 36.425 \<and>
     (35.982 :: rat) < 36.425 \<and> (- 115.391 :: rat) < - 114.988"
  using run_Inr_trace[OF assms] by (elim exE conjE) auto

end
